theory Spec2Isabelle
  imports Complex_Main "HOL-Library.Word"
begin

unbundle bit_operations_syntax

section \<open>Numbers and vectors\<close>

text \<open>
  The scalar type of the renderer is the C++ \<^verbatim>\<open>float\<close>, the binary32 format of
  IEEE 754. A value is a finite number, one of the two infinities, or a NaN; the two
  zeros are not told apart. The sum and the product of two finite values are the exact
  real result rounded to binary32: to the nearest value of the format, a tie to the one
  with the even significand, and to an infinity from \<^verbatim>\<open>2^128 - 2^103\<close> on. The rules for
  the special values are those of IEEE 754. A literal of the source stands for its
  decimal value.
\<close>

datatype float = Finite real | PosInf | NegInf | NaN

fun is_finite :: "float \<Rightarrow> bool" where
  "is_finite (Finite r) = True"
| "is_finite PosInf = False"
| "is_finite NegInf = False"
| "is_finite NaN = False"

text \<open>
  Rounding works on the magnitude in units of \<^verbatim>\<open>2^-149\<close>, the smallest positive value
  of the format. There the values of the format are the integers below \<^verbatim>\<open>2^24\<close> times
  \<^verbatim>\<open>2^k\<close> for \<open>k\<close> from 0 to 253; \<open>quantum_exponent\<close> finds the \<open>k\<close> of a magnitude
  \<open>s\<close>, the least one with \<^verbatim>\<open>s < 2^(24 + k)\<close>. The magnitude is rounded to a multiple of
  \<^verbatim>\<open>2^k\<close>; a result of \<^verbatim>\<open>2^277\<close> or more, that is \<^verbatim>\<open>2^128\<close>, is an overflow.
\<close>

function quantum_exponent :: "nat \<Rightarrow> real \<Rightarrow> nat" where
  "quantum_exponent k s =
     (if k < 253 \<and> 2 ^ (24 + k) \<le> s then quantum_exponent (k + 1) s else k)"
  by pat_completeness auto
termination
  by (relation "measure (\<lambda>(k, s). 253 - k)") auto

declare quantum_exponent.simps [simp del]

definition round_half_even :: "real \<Rightarrow> int" where
  "round_half_even q =
     (let f = \<lfloor>q\<rfloor>; d = q - of_int f
      in if d < 1 / 2 then f else if 1 / 2 < d then f + 1 else if even f then f else f + 1)"

definition binary32 :: "real \<Rightarrow> float" where
  "binary32 r =
     (let s = \<bar>r\<bar> * 2 ^ 149;
          k = quantum_exponent 0 s;
          m = round_half_even (s / 2 ^ k)
      in if 2 ^ 277 \<le> of_int m * (2 :: real) ^ k
         then (if r < 0 then NegInf else PosInf)
         else Finite (sgn r * (of_int m * 2 ^ k / 2 ^ 149)))"

fun fadd :: "float \<Rightarrow> float \<Rightarrow> float" where
  "fadd NaN b = NaN"
| "fadd a NaN = NaN"
| "fadd PosInf NegInf = NaN"
| "fadd NegInf PosInf = NaN"
| "fadd PosInf b = PosInf"
| "fadd NegInf b = NegInf"
| "fadd a PosInf = PosInf"
| "fadd a NegInf = NegInf"
| "fadd (Finite a) (Finite b) = binary32 (a + b)"

fun fneg :: "float \<Rightarrow> float" where
  "fneg (Finite a) = Finite (- a)"
| "fneg PosInf = NegInf"
| "fneg NegInf = PosInf"
| "fneg NaN = NaN"

text \<open>An infinity times a finite value: NaN for zero, otherwise the sign rule.\<close>

definition inf_times :: "float \<Rightarrow> real \<Rightarrow> float" where
  "inf_times i r = (if r = 0 then NaN else if 0 < r then i else fneg i)"

fun fmul :: "float \<Rightarrow> float \<Rightarrow> float" where
  "fmul NaN b = NaN"
| "fmul a NaN = NaN"
| "fmul (Finite a) (Finite b) = binary32 (a * b)"
| "fmul (Finite a) PosInf = inf_times PosInf a"
| "fmul (Finite a) NegInf = inf_times NegInf a"
| "fmul PosInf (Finite b) = inf_times PosInf b"
| "fmul NegInf (Finite b) = inf_times NegInf b"
| "fmul PosInf PosInf = PosInf"
| "fmul PosInf NegInf = NegInf"
| "fmul NegInf PosInf = NegInf"
| "fmul NegInf NegInf = PosInf"

text \<open>The comparison \<^verbatim>\<open>a != 0\<close> of C++: false for a zero only, true for a NaN.\<close>

fun fnonzero :: "float \<Rightarrow> bool" where
  "fnonzero (Finite r) = (r \<noteq> 0)"
| "fnonzero PosInf = True"
| "fnonzero NegInf = True"
| "fnonzero NaN = True"

record float2 =
  u :: float
  v :: float

record float3 =
  x :: float
  y :: float
  z :: float

text \<open>\<^verbatim>\<open>operator*\<close> and \<^verbatim>\<open>operator+\<close> on \<^verbatim>\<open>float3\<close> work componentwise.\<close>

definition float3_mul :: "float3 \<Rightarrow> float3 \<Rightarrow> float3" where
  "float3_mul a b = \<lparr>x = fmul (x a) (x b), y = fmul (y a) (y b), z = fmul (z a) (z b)\<rparr>"

definition float3_add :: "float3 \<Rightarrow> float3 \<Rightarrow> float3" where
  "float3_add a b = \<lparr>x = fadd (x a) (x b), y = fadd (y a) (y b), z = fadd (z a) (z b)\<rparr>"

definition float3_finite :: "float3 \<Rightarrow> bool" where
  "float3_finite a = (is_finite (x a) \<and> is_finite (y a) \<and> is_finite (z a))"

definition float3_of :: "real \<Rightarrow> real \<Rightarrow> real \<Rightarrow> float3" where
  "float3_of a b c = \<lparr>x = Finite a, y = Finite b, z = Finite c\<rparr>"

type_synonym uint32 = "32 word"
type_synonym uint64 = "64 word"
type_synonym uint8 = "8 word"

section \<open>Integrator contexts (Shading/IntegratorContexts.cpp)\<close>

subsection \<open>Data\<close>

text \<open>
  The structures are declared in headers outside the translated sources. Each record has
  the fields that the functions of \<^verbatim>\<open>IntegratorContexts.cpp\<close> read and write, with the
  types their uses there require; counters and indices are 32-bit unsigned. The fields of
  \<^verbatim>\<open>HitParameters\<close> carry the prefix \<open>hit_\<close>, since \<^verbatim>\<open>Ray\<close> has fields of the same
  names.
\<close>

record SurfaceDifferentials =
  dndu :: float3
  dndv :: float3
  duvdx :: float2
  duvdy :: float2

record SurfaceParameters =
  position :: float3
  perturbedNormal :: float3
  rxDirection :: float3
  ryDirection :: float3
  differentials :: SurfaceDifferentials
  materialFlags :: uint32

record HitParameters =
  hit_viewDirection :: float3
  hit_throughput :: float3
  hit_pixelIndex :: uint32
  hit_bounceCount :: uint32

text \<open>
  Modelled from the spec: the differentials of a ray, which the spec's data model lists as
  optional. The arithmetic of \<^verbatim>\<open>MakeReflectionRay\<close> and \<^verbatim>\<open>MakeRefractionRay\<close> is not
  in the sources; the transformed differentials are represented by the constructor's
  arguments, in the order of the call.
\<close>

datatype RayDifferentials =
    Reflected float3 float3 float3 float3 float3 float3 SurfaceDifferentials
  | Refracted float3 float3 float3 float3 float3 float3 SurfaceDifferentials float

record Ray =
  origin :: float3
  direction :: float3
  rayDifferentials :: "RayDifferentials option"
  throughput :: float3
  pixelIndex :: uint32
  bounceCount :: uint32

text \<open>
  The kernel context. \<^verbatim>\<open>rayStack\<close> and \<^verbatim>\<open>imageData\<close> are raw pointers in the source,
  indexed without a bounds check: they are stores from index to value. Every field of the
  structure that this file does not touch is in the record's extension.
\<close>

record KernelContext =
  imageData :: "nat \<Rightarrow> float3"
  rayStack :: "nat \<Rightarrow> Ray"
  rayStackCount :: uint32
  rayStackCapacity :: uint32
  maxPathLength :: uint32

subsection \<open>Ray constructors\<close>

text \<open>
  Modelled from the spec: \<^verbatim>\<open>MakeRay\<close>, \<^verbatim>\<open>MakeReflectionRay\<close> and \<^verbatim>\<open>MakeRefractionRay\<close>
  are declared outside the sources. By the spec's data model a ray holds origin,
  direction, optional differentials, throughput, pixel index and bounce count; each
  constructor stores the arguments of those names, and only the last two produce
  differentials.
\<close>

definition MakeRay :: "float3 \<Rightarrow> float3 \<Rightarrow> float3 \<Rightarrow> uint32 \<Rightarrow> uint32 \<Rightarrow> Ray" where
  "MakeRay orig dir thr pix bounce =
     \<lparr>origin = orig, direction = dir, rayDifferentials = None,
      throughput = thr, pixelIndex = pix, bounceCount = bounce\<rparr>"

definition MakeReflectionRay ::
  "float3 \<Rightarrow> float3 \<Rightarrow> float3 \<Rightarrow> float3 \<Rightarrow> float3 \<Rightarrow> float3 \<Rightarrow> SurfaceDifferentials
   \<Rightarrow> float3 \<Rightarrow> uint32 \<Rightarrow> uint32 \<Rightarrow> Ray" where
  "MakeReflectionRay rxDir ryDir p n wo wi sdiff thr pix bounce =
     \<lparr>origin = p, direction = wi,
      rayDifferentials = Some (Reflected rxDir ryDir p n wo wi sdiff),
      throughput = thr, pixelIndex = pix, bounceCount = bounce\<rparr>"

definition MakeRefractionRay ::
  "float3 \<Rightarrow> float3 \<Rightarrow> float3 \<Rightarrow> float3 \<Rightarrow> float3 \<Rightarrow> float3 \<Rightarrow> SurfaceDifferentials
   \<Rightarrow> float \<Rightarrow> float3 \<Rightarrow> uint32 \<Rightarrow> uint32 \<Rightarrow> Ray" where
  "MakeRefractionRay rxDir ryDir p n wo wi sdiff iorRatio thr pix bounce =
     \<lparr>origin = p, direction = wi,
      rayDifferentials = Some (Refracted rxDir ryDir p n wo wi sdiff iorRatio),
      throughput = thr, pixelIndex = pix, bounceCount = bounce\<rparr>"

subsection \<open>Bounce rays\<close>

text \<open>
  \<^verbatim>\<open>OffsetRayOrigin\<close> and the value of the flag \<^verbatim>\<open>ePreserveRayDifferentials\<close> are
  declared outside the sources: both are parameters, \<open>offs\<close> and \<open>ePRD\<close>. The
  condition of the \<^verbatim>\<open>if\<close> is the source's: the mask is nonzero, and the \<^verbatim>\<open>x\<close> or the
  \<^verbatim>\<open>y\<close> component of \<^verbatim>\<open>surface.rxDirection\<close> is nonzero.
\<close>

definition rayHasDifferentials :: "SurfaceParameters \<Rightarrow> bool" where
  "rayHasDifferentials surface =
     (fnonzero (x (rxDirection surface)) \<or> fnonzero (y (rxDirection surface)))"

definition CreateReflectionBounceRay ::
  "(SurfaceParameters \<Rightarrow> float3 \<Rightarrow> float \<Rightarrow> float3) \<Rightarrow> uint32
   \<Rightarrow> SurfaceParameters \<Rightarrow> HitParameters \<Rightarrow> float3 \<Rightarrow> float3 \<Rightarrow> Ray" where
  "CreateReflectionBounceRay offs ePRD surface hit wi reflectance =
     (let offsetOrigin = offs surface wi (Finite 1);
          thr = float3_mul (hit_throughput hit) reflectance
      in if (materialFlags surface AND ePRD) \<noteq> 0 \<and> rayHasDifferentials surface
         then MakeReflectionRay (rxDirection surface) (ryDirection surface) offsetOrigin
                (perturbedNormal surface) (hit_viewDirection hit) wi (differentials surface)
                thr (hit_pixelIndex hit) (hit_bounceCount hit + 1)
         else MakeRay offsetOrigin wi thr (hit_pixelIndex hit) (hit_bounceCount hit + 1))"

definition CreateRefractionBounceRay ::
  "(SurfaceParameters \<Rightarrow> float3 \<Rightarrow> float \<Rightarrow> float3) \<Rightarrow> uint32
   \<Rightarrow> SurfaceParameters \<Rightarrow> HitParameters \<Rightarrow> float3 \<Rightarrow> float3 \<Rightarrow> float \<Rightarrow> Ray" where
  "CreateRefractionBounceRay offs ePRD surface hit wi reflectance iorRatio =
     (let offsetOrigin = offs surface wi (Finite 1);
          thr = float3_mul (hit_throughput hit) reflectance
      in if (materialFlags surface AND ePRD) \<noteq> 0 \<and> rayHasDifferentials surface
         then MakeRefractionRay (rxDirection surface) (ryDirection surface) offsetOrigin
                (perturbedNormal surface) (hit_viewDirection hit) wi (differentials surface)
                iorRatio thr (hit_pixelIndex hit) (hit_bounceCount hit + 1)
         else MakeRay offsetOrigin wi thr (hit_pixelIndex hit) (hit_bounceCount hit + 1))"

subsection \<open>The ray stack and the image accumulator\<close>

text \<open>
  Modelled from the spec: the macro \<^verbatim>\<open>Assert_\<close> is defined outside the sources. By the
  spec a full stack is a fatal configuration fault, so a failed assertion ends the call
  with \<open>AssertionFailed\<close> and nothing is stored.
\<close>

datatype fault = AssertionFailed

definition InsertRay ::
  "'a KernelContext_scheme \<Rightarrow> Ray \<Rightarrow> fault + 'a KernelContext_scheme" where
  "InsertRay ctx ray =
     (if bounceCount ray = maxPathLength ctx then Inr ctx
      else if \<not> (rayStackCount ctx + 1 \<noteq> rayStackCapacity ctx) then Inl AssertionFailed
      else Inr (ctx\<lparr>rayStack := (rayStack ctx)(unat (rayStackCount ctx) := ray),
                    rayStackCount := rayStackCount ctx + 1\<rparr>))"

text \<open>The two overloads of \<^verbatim>\<open>AccumulatePixelEnergy\<close>.\<close>

definition AccumulatePixelEnergy_Ray ::
  "'a KernelContext_scheme \<Rightarrow> Ray \<Rightarrow> float3 \<Rightarrow> 'a KernelContext_scheme" where
  "AccumulatePixelEnergy_Ray ctx ray val =
     ctx\<lparr>imageData := (imageData ctx)(unat (pixelIndex ray) :=
            float3_add (imageData ctx (unat (pixelIndex ray))) (float3_mul (throughput ray) val))\<rparr>"

definition AccumulatePixelEnergy_Hit ::
  "'a KernelContext_scheme \<Rightarrow> HitParameters \<Rightarrow> float3 \<Rightarrow> 'a KernelContext_scheme" where
  "AccumulatePixelEnergy_Hit ctx hit val =
     ctx\<lparr>imageData := (imageData ctx)(unat (hit_pixelIndex hit) :=
            float3_add (imageData ctx (unat (hit_pixelIndex hit)))
                       (float3_mul (hit_throughput hit) val))\<rparr>"

text \<open>
  The entries of the ray stack, bottom first, and the path-length bound on them: no entry
  has a bounce count equal to \<^verbatim>\<open>maxPathLength\<close>.
\<close>

definition stack_entries :: "'a KernelContext_scheme \<Rightarrow> Ray list" where
  "stack_entries ctx = map (rayStack ctx) [0 ..< unat (rayStackCount ctx)]"

definition stack_within_bound :: "'a KernelContext_scheme \<Rightarrow> bool" where
  "stack_within_bound ctx =
     list_all (\<lambda>r. bounceCount r \<noteq> maxPathLength ctx) (stack_entries ctx)"

section \<open>Model resource (SceneLib/ModelResource.cpp)\<close>

subsection \<open>Materials and their lookup\<close>

text \<open>
  Modelled from the spec: the declarations of \<^verbatim>\<open>Material\<close>, of its shader tag and of the
  scalar attribute table are outside the translated sources. The shader tags and the
  attribute names are those of the spec's data model; the record has the fields that
  \<^verbatim>\<open>ModelResource.cpp\<close> reads and writes.
\<close>

datatype ShaderType = eDisneySolid | eDisneyThin | eTransparentGgx

datatype ScalarAttribute =
    eRoughness | eMetallic | eSpecularTint | eAnisotropic | eSheen | eSheenTint
  | eClearcoat | eClearcoatGloss | eIor | eTransmission | eSpecular | eFlatness

type_synonym Hash32 = uint32

record Material =
  baseColor :: float3
  shader :: ShaderType
  scalarAttributeValues :: "ScalarAttribute \<Rightarrow> float"
  flags :: uint32

text \<open>
  \<^verbatim>\<open>CreateDefaultMaterial\<close> allocates a material with \<^verbatim>\<open>New_\<close> and assigns three of its
  fields. The freshly constructed object is the parameter \<open>fresh\<close>.
\<close>

definition CreateDefaultMaterial :: "Material \<Rightarrow> Material" where
  "CreateDefaultMaterial fresh =
     fresh\<lparr>baseColor := float3_of 0.6 0.6 0.6,
           shader := eDisneySolid,
           scalarAttributeValues := (scalarAttributeValues fresh)(eIor := Finite 1.5)\<rparr>"

record MeshMetaData =
  indexCount :: uint32
  indexOffset :: uint32
  vertexCount :: uint32
  vertexOffset :: uint32
  materialHash :: Hash32
  indicesPerFace :: uint32
  meshNameHash :: Hash32

text \<open>
  The arrays of \<^verbatim>\<open>ModelResourceData\<close> are lists. \<^verbatim>\<open>ModelGeometryData\<close> holds the byte
  sizes of its buffers and their addresses after the blob was attached.
\<close>

record ModelResourceData =
  totalVertexCount :: uint32
  materials :: "Material list"
  materialHashes :: "Hash32 list"
  meshes :: "MeshMetaData list"

record ModelGeometryData =
  normalsSize :: uint64
  tangentsSize :: uint64
  uvsSize :: uint64
  indices :: uint64
  faceIndexCounts :: uint64
  positions :: uint64
  normals :: uint64
  tangents :: uint64
  uvs :: uint64

text \<open>
  Modelled from the spec: \<^verbatim>\<open>BinarySearch\<close> (\<^verbatim>\<open>UtilityLib/BinarySearch.h\<close>) is outside the
  translated sources. By the spec the lookup is a binary search over the array sorted by
  hash; it is called with the array, the number of elements and the key. It returns the
  index of an element equal to the key, and \<^verbatim>\<open>(uint)-1\<close>, here \<open>None\<close>, when there is
  none. The interval searched is \<open>lo \<le> i < hi\<close>.
\<close>

function BinarySearch_loop :: "Hash32 list \<Rightarrow> nat \<Rightarrow> nat \<Rightarrow> Hash32 \<Rightarrow> nat option" where
  "BinarySearch_loop xs lo hi key =
     (if lo < hi then
        (let mid = (lo + hi) div 2 in
           if xs ! mid = key then Some mid
           else if xs ! mid < key then BinarySearch_loop xs (mid + 1) hi key
           else BinarySearch_loop xs lo mid key)
      else None)"
  by pat_completeness auto
termination
  by (relation "measure (\<lambda>(xs, lo, hi, key). hi - lo)") auto

definition BinarySearch :: "Hash32 list \<Rightarrow> nat \<Rightarrow> Hash32 \<Rightarrow> nat option" where
  "BinarySearch xs count key = BinarySearch_loop xs 0 count key"

text \<open>
  The backend objects. The traversal backend is an external library: a geometry is the
  record of what the calls made on it have set, a scene is the list of the geometries
  attached to it with their ids. A shared buffer is named by the address passed.
\<close>

datatype RTCGeometryType =
    RTC_GEOMETRY_TYPE_SUBDIVISION | RTC_GEOMETRY_TYPE_TRIANGLE | RTC_GEOMETRY_TYPE_QUAD
  | RTC_GEOMETRY_TYPE_ROUND_BSPLINE_CURVE

datatype RTCFormat =
    RTC_FORMAT_UINT | RTC_FORMAT_UINT3 | RTC_FORMAT_UINT4
  | RTC_FORMAT_FLOAT2 | RTC_FORMAT_FLOAT3 | RTC_FORMAT_FLOAT4

datatype RTCBufferType =
    RTC_BUFFER_TYPE_INDEX | RTC_BUFFER_TYPE_VERTEX | RTC_BUFFER_TYPE_VERTEX_ATTRIBUTE
  | RTC_BUFFER_TYPE_FACE

datatype RTCSubdivisionMode = RTC_SUBDIVISION_MODE_PIN_BOUNDARY

datatype Callback = IntersectionFilter | DisplacementFunction

datatype EmbreeGeometryFlags = HasNormals | HasTangents | HasUvs

record SharedBuffer =
  bufferType :: RTCBufferType
  slot :: nat
  format :: RTCFormat
  ptr :: uint64
  byteOffset :: nat
  byteStride :: nat
  itemCount :: nat

record RTCGeometry =
  geometryType :: RTCGeometryType
  sharedBuffers :: "SharedBuffer list"
  vertexAttributeCount :: "nat option"
  displacementFunction :: "Callback option"
  tessellationRate :: "float option"
  subdivisionMode :: "RTCSubdivisionMode option"
  intersectFilterFunction :: "Callback option"
  geometryUserData :: "nat option"
  committed :: bool

type_synonym RTCScene = "(uint32 \<times> RTCGeometry) list"

text \<open>
  The user data of a geometry. Its transform and its bounding box, which the source sets
  to the identity and to the invalid box, are left out; \<^verbatim>\<open>rtcScene\<close> and \<^verbatim>\<open>rtcGeometry\<close>
  are handles of the objects modelled above.
\<close>

record GeometryUserData =
  userFlags :: "EmbreeGeometryFlags set"
  material :: Material
  instanceID :: uint32

record ModelResource =
  data :: ModelResourceData
  geometry :: ModelGeometryData
  defaultMaterial :: "Material option"
  rtcGeometries :: "RTCGeometry list"
  userDatas :: "GeometryUserData list"

text \<open>
  \<^verbatim>\<open>FindMeshMaterial\<close> returns a pointer: \<open>None\<close> is the null pointer, which
  \<^verbatim>\<open>model->defaultMaterial\<close> is until \<^verbatim>\<open>InitializeModelResource\<close> has run.
\<close>

definition FindMeshMaterial :: "ModelResource \<Rightarrow> Hash32 \<Rightarrow> Material option" where
  "FindMeshMaterial model h =
     (let materialCount = length (materials (data model)) in
        if materialCount = 0 then defaultMaterial model
        else (case BinarySearch (materialHashes (data model)) materialCount h of
                None \<Rightarrow> defaultMaterial model
              | Some materialIndex \<Rightarrow> Some (materials (data model) ! materialIndex)))"

subsection \<open>Registering the meshes\<close>

text \<open>The two macros at the head of the file.\<close>

definition EnableDisplacement :: int where
  "EnableDisplacement = 0"

definition TessellationRate :: float where
  "TessellationRate = Finite 64"

definition kGeometryDataAlignment :: uint64 where
  "kGeometryDataAlignment = 16"

definition RTC_INVALID_GEOMETRY_ID :: uint32 where
  "RTC_INVALID_GEOMETRY_ID = - 1"

datatype model_fault = ModelAssertionFailed | NullPointer | DivisionByZero

definition rtcNewGeometry :: "RTCGeometryType \<Rightarrow> RTCGeometry" where
  "rtcNewGeometry t =
     \<lparr>geometryType = t, sharedBuffers = [], vertexAttributeCount = None,
      displacementFunction = None, tessellationRate = None, subdivisionMode = None,
      intersectFilterFunction = None, geometryUserData = None, committed = False\<rparr>"

definition rtcSetSharedGeometryBuffer ::
  "RTCGeometry \<Rightarrow> RTCBufferType \<Rightarrow> nat \<Rightarrow> RTCFormat \<Rightarrow> uint64 \<Rightarrow> nat \<Rightarrow> nat \<Rightarrow> nat
   \<Rightarrow> RTCGeometry" where
  "rtcSetSharedGeometryBuffer geom t s f p off stride n =
     geom\<lparr>sharedBuffers := sharedBuffers geom @
       [\<lparr>bufferType = t, slot = s, format = f, ptr = p, byteOffset = off,
         byteStride = stride, itemCount = n\<rparr>]\<rparr>"

definition aligned :: "uint64 \<Rightarrow> bool" where
  "aligned p = (p AND (kGeometryDataAlignment - 1) = 0)"

text \<open>
  \<^verbatim>\<open>SetMeshVertexAttributes\<close>. The assertions come first in their order; a failed one
  ends the call. The sizes of the vertex formats are those of three, four and two floats.
\<close>

definition SetMeshVertexAttributes :: "RTCGeometry \<Rightarrow> ModelResource \<Rightarrow> model_fault + RTCGeometry" where
  "SetMeshVertexAttributes geom model =
     (let resourceData = data model; g = geometry model in
      if \<not> (aligned (positions g) \<and> aligned (normals g) \<and> aligned (tangents g)
             \<and> aligned (uvs g))
      then Inl ModelAssertionFailed
      else
        let geom1 = rtcSetSharedGeometryBuffer geom RTC_BUFFER_TYPE_VERTEX 0 RTC_FORMAT_FLOAT3
                      (positions g) 0 12 (unat (totalVertexCount resourceData));
            hasNormals = (normalsSize g > 0);
            hasTangents = (tangentsSize g > 0);
            hasUVs = (uvsSize g > 0);
            attributeCount = (if hasNormals then 1 else 0) + (if hasUVs then 1 else 0)
                             + (if hasTangents then 1 else (0::nat))
        in if attributeCount > 0 then
             (let geom2 = geom1\<lparr>vertexAttributeCount := Some attributeCount\<rparr>;
                  geom3 = (if hasNormals
                           then rtcSetSharedGeometryBuffer geom2 RTC_BUFFER_TYPE_VERTEX_ATTRIBUTE 0
                                  RTC_FORMAT_FLOAT3 (normals g) 0 12
                                  (unat (totalVertexCount resourceData))
                           else geom2)
              in if hasTangents \<and> \<not> hasNormals then Inl ModelAssertionFailed
                 else
                   let geom4 = (if hasTangents
                                then rtcSetSharedGeometryBuffer geom3
                                       RTC_BUFFER_TYPE_VERTEX_ATTRIBUTE 1 RTC_FORMAT_FLOAT4
                                       (tangents g) 0 16 (unat (totalVertexCount resourceData))
                                else geom3)
                   in if hasUVs \<and> \<not> (hasNormals \<and> hasTangents) then Inl ModelAssertionFailed
                      else Inr (if hasUVs
                                then rtcSetSharedGeometryBuffer geom4
                                       RTC_BUFFER_TYPE_VERTEX_ATTRIBUTE 2 RTC_FORMAT_FLOAT2
                                       (uvs g) 0 8 (unat (totalVertexCount resourceData))
                                else geom4))
           else Inr geom1)"

text \<open>
  The geometry that the body of the loop of \<^verbatim>\<open>InitializeMeshes\<close> creates for one mesh,
  up to the test for alpha testing. \<open>gate\<close> is the value of the macro
  \<^verbatim>\<open>EnableDisplacement_\<close>, \<open>eDE\<close> the mask \<^verbatim>\<open>MaterialFlags::eDisplacementEnabled\<close>,
  which is declared outside the translated sources. A division by
  \<^verbatim>\<open>indicesPerFace\<close> equal to zero is a fault.
\<close>

definition hasDisplacement :: "int \<Rightarrow> uint32 \<Rightarrow> Material \<Rightarrow> bool" where
  "hasDisplacement gate eDE mat = ((flags mat AND eDE) \<noteq> 0 \<and> gate \<noteq> 0)"

definition CreateMeshGeometry ::
  "int \<Rightarrow> uint32 \<Rightarrow> ModelResource \<Rightarrow> MeshMetaData \<Rightarrow> Material \<Rightarrow> model_fault + RTCGeometry" where
  "CreateMeshGeometry gate eDE model meshData mat =
     (let ipf = indicesPerFace meshData;
          indexByteOffset = indexOffset meshData * 4
      in if hasDisplacement gate eDE mat then
           (case SetMeshVertexAttributes (rtcNewGeometry RTC_GEOMETRY_TYPE_SUBDIVISION) model of
              Inl e \<Rightarrow> Inl e
            | Inr g1 \<Rightarrow>
                let g2 = rtcSetSharedGeometryBuffer g1 RTC_BUFFER_TYPE_INDEX 0 RTC_FORMAT_UINT
                           (indices (geometry model)) (unat indexByteOffset) 4
                           (unat (indexCount meshData))
                in if ipf = 0 then Inl DivisionByZero
                   else
                     let g3 = rtcSetSharedGeometryBuffer g2 RTC_BUFFER_TYPE_FACE 0
                                RTC_FORMAT_UINT (faceIndexCounts (geometry model)) 0 4
                                (unat (indexCount meshData div ipf))
                     in Inr (g3\<lparr>displacementFunction := Some DisplacementFunction,
                                 tessellationRate := Some TessellationRate,
                                 subdivisionMode := Some RTC_SUBDIVISION_MODE_PIN_BOUNDARY\<rparr>))
         else
           (let type = (if ipf = 3 then RTC_GEOMETRY_TYPE_TRIANGLE else RTC_GEOMETRY_TYPE_QUAD);
                fmt = (if ipf = 3 then RTC_FORMAT_UINT3 else RTC_FORMAT_UINT4)
            in case SetMeshVertexAttributes (rtcNewGeometry type) model of
                 Inl e \<Rightarrow> Inl e
               | Inr g1 \<Rightarrow>
                   if ipf = 0 then Inl DivisionByZero
                   else Inr (rtcSetSharedGeometryBuffer g1 RTC_BUFFER_TYPE_INDEX 0 fmt
                               (indices (geometry model)) (unat indexByteOffset)
                               (unat ipf * 4) (unat (indexCount meshData div ipf)))))"

text \<open>
  One iteration of the loop: look the material up, create the geometry, install the
  filter of alpha-tested materials, record geometry and user data in the model, commit
  the geometry and attach it to the scene under the id \<^verbatim>\<open>offset + scan\<close>. \<open>eAT\<close> is the mask
  \<^verbatim>\<open>MaterialFlags::eAlphaTested\<close>. The model and the scene hold handles of the one geometry
  object: both get the object as it is at the end of the iteration.
\<close>

definition InitializeMesh ::
  "int \<Rightarrow> uint32 \<Rightarrow> uint32 \<Rightarrow> ModelResource \<Rightarrow> RTCScene \<Rightarrow> uint32 \<Rightarrow> MeshMetaData
   \<Rightarrow> model_fault + ModelResource \<times> RTCScene" where
  "InitializeMesh gate eDE eAT model rtcScene geomID meshData =
     (case FindMeshMaterial model (materialHash meshData) of
        None \<Rightarrow> Inl NullPointer
      | Some mat \<Rightarrow>
          (case CreateMeshGeometry gate eDE model meshData mat of
             Inl e \<Rightarrow> Inl e
           | Inr g \<Rightarrow>
               let hasAlphaTesting = ((flags mat AND eAT) \<noteq> 0);
                   g1 = (if hasAlphaTesting
                         then g\<lparr>intersectFilterFunction := Some IntersectionFilter\<rparr> else g);
                   gm = geometry model;
                   userData = \<lparr>userFlags = (if normalsSize gm > 0 then {HasNormals} else {})
                                  \<union> (if tangentsSize gm > 0 then {HasTangents} else {})
                                  \<union> (if uvsSize gm > 0 then {HasUvs} else {}),
                               material = mat,
                               instanceID = RTC_INVALID_GEOMETRY_ID\<rparr>;
                   g2 = g1\<lparr>geometryUserData := Some (length (userDatas model)),
                           committed := True\<rparr>
               in Inr (model\<lparr>rtcGeometries := rtcGeometries model @ [g2],
                             userDatas := userDatas model @ [userData]\<rparr>,
                       rtcScene @ [(geomID, g2)])))"

text \<open>
  The loop, over the meshes from index \<open>scan\<close> on. The counter is 32 bits wide, as is the
  number of meshes it runs to.
\<close>

fun InitializeMeshes_loop ::
  "int \<Rightarrow> uint32 \<Rightarrow> uint32 \<Rightarrow> ModelResource \<Rightarrow> RTCScene \<Rightarrow> uint32 \<Rightarrow> uint32
   \<Rightarrow> MeshMetaData list \<Rightarrow> model_fault + ModelResource \<times> RTCScene" where
  "InitializeMeshes_loop gate eDE eAT model rtcScene offset scan [] = Inr (model, rtcScene)"
| "InitializeMeshes_loop gate eDE eAT model rtcScene offset scan (meshData # rest) =
     (case InitializeMesh gate eDE eAT model rtcScene (offset + scan) meshData of
        Inl e \<Rightarrow> Inl e
      | Inr (model', rtcScene') \<Rightarrow>
          InitializeMeshes_loop gate eDE eAT model' rtcScene' offset (scan + 1) rest)"

definition InitializeMeshes ::
  "int \<Rightarrow> uint32 \<Rightarrow> uint32 \<Rightarrow> ModelResource \<Rightarrow> uint32 \<Rightarrow> RTCScene
   \<Rightarrow> model_fault + uint32 \<times> ModelResource \<times> RTCScene" where
  "InitializeMeshes gate eDE eAT model offset rtcScene =
     (let g = geometry model in
      if \<not> (aligned (indices g) \<and> aligned (faceIndexCounts g)) then Inl ModelAssertionFailed
      else
        let count = (word_of_nat (length (meshes (data model))) :: uint32) in
        case InitializeMeshes_loop gate eDE eAT model rtcScene offset 0
               (take (unat count) (meshes (data model))) of
          Inl e \<Rightarrow> Inl e
        | Inr (model', rtcScene') \<Rightarrow> Inr (offset + count, model', rtcScene'))"

text \<open>
  What the description of \<^verbatim>\<open>InitializeMeshes\<close> asks of the geometry registered for a mesh
  with material \<open>mat\<close>: a subdivision geometry with tessellation rate and displacement
  callback exactly when the material has the displacement flag and the gate is on;
  otherwise a triangle geometry for three indices per face and a quad geometry for four.
\<close>

definition mesh_geometry_as_specified ::
  "int \<Rightarrow> uint32 \<Rightarrow> Material \<Rightarrow> MeshMetaData \<Rightarrow> RTCGeometry \<Rightarrow> bool" where
  "mesh_geometry_as_specified gate eDE mat meshData g =
     (if (flags mat AND eDE) \<noteq> 0 \<and> gate \<noteq> 0
      then geometryType g = RTC_GEOMETRY_TYPE_SUBDIVISION \<and>
           tessellationRate g = Some TessellationRate \<and>
           displacementFunction g = Some DisplacementFunction
      else geometryType g \<noteq> RTC_GEOMETRY_TYPE_SUBDIVISION \<and>
           displacementFunction g = None \<and>
           (if indicesPerFace meshData = 3 then geometryType g = RTC_GEOMETRY_TYPE_TRIANGLE
            else if indicesPerFace meshData = 4 then geometryType g = RTC_GEOMETRY_TYPE_QUAD
            else True))"

text \<open>
  The conditions under which no assertion of the registration fails: the buffers are
  aligned, and tangents come with normals, texture coordinates with both.
\<close>

definition geometry_well_formed :: "ModelGeometryData \<Rightarrow> bool" where
  "geometry_well_formed g =
     (aligned (indices g) \<and> aligned (faceIndexCounts g) \<and> aligned (positions g) \<and>
      aligned (normals g) \<and> aligned (tangents g) \<and> aligned (uvs g) \<and>
      (if tangentsSize g > 0 then normalsSize g > 0 else True) \<and>
      (if uvsSize g > 0 then normalsSize g > 0 \<and> tangentsSize g > 0 else True))"

section \<open>Build context (BuildCore/BuildContext.cpp)\<close>

text \<open>
  The file system maps a path to the bytes of the file there. \<^verbatim>\<open>Error\<close> is the error value
  of the build; \<^verbatim>\<open>Success_\<close> is the right injection of the unit value.
\<close>

type_synonym FileSystem = "string \<rightharpoonup> uint8 list"

datatype Error = Error string

text \<open>
  Modelled from the spec: \<^verbatim>\<open>File::WriteWholeFile\<close> is outside the translated sources. By
  the spec a baked output is written atomically, through a temporary file and a rename,
  and no partially written file is left behind. The steps: the bytes go to a temporary
  file beside the target; when creating or writing it fails, the temporary file is
  removed and the call fails; then the temporary file is renamed to the target. What the
  file system does in a call is the parameter \<open>io\<close>.
\<close>

datatype io_outcome = IoSuccess | CreateFails | WriteFailsAfter nat | RenameFails

definition temporary_path :: "string \<Rightarrow> string" where
  "temporary_path path = path @ ''.tmp''"

definition rename_file :: "FileSystem \<Rightarrow> string \<Rightarrow> string \<Rightarrow> FileSystem" where
  "rename_file fs from to = (fs(to := fs from))(from := None)"

definition WriteWholeFile ::
  "io_outcome \<Rightarrow> FileSystem \<Rightarrow> string \<Rightarrow> uint8 list \<Rightarrow> uint32 \<Rightarrow> (Error + unit) \<times> FileSystem" where
  "WriteWholeFile io fs filepath bytes fileSize =
     (let tmp = temporary_path filepath;
          content = take (unat fileSize) bytes
      in case io of
           CreateFails \<Rightarrow> (Inl (Error ''Failed to open file''), fs)
         | WriteFailsAfter k \<Rightarrow>
             (let fs1 = fs(tmp \<mapsto> take k content)
              in (Inl (Error ''Failed to write file''), fs1(tmp := None)))
         | RenameFails \<Rightarrow>
             (let fs1 = fs(tmp \<mapsto> content)
              in (Inl (Error ''Failed to rename file''), fs1(tmp := None)))
         | IoSuccess \<Rightarrow>
             (let fs1 = fs(tmp \<mapsto> content)
              in (Inr (), rename_file fs1 tmp filepath)))"

text \<open>
  \<^verbatim>\<open>ContentId\<close> and \<^verbatim>\<open>AssetId\<close> are made from a type and a name; the asset id, a hash in
  the source, is represented by the two strings. \<^verbatim>\<open>AssetFileUtils::AssetFilePath\<close> is the
  parameter \<open>assetFilePath\<close>. The context has the fields that \<^verbatim>\<open>CreateOutput\<close> and the
  baker use; the other fields are in the record's extension.
\<close>

datatype ContentId = ContentId string string

datatype AssetId = AssetId string string

fun content_name :: "ContentId \<Rightarrow> string" where
  "content_name (ContentId t n) = n"

record ProcessorOutput =
  output_source :: ContentId
  output_id :: AssetId
  output_version :: uint64

record BuildProcessorContext =
  context_source :: ContentId
  outputs :: "ProcessorOutput list"

definition CreateOutput ::
  "io_outcome \<Rightarrow> (AssetId \<Rightarrow> uint64 \<Rightarrow> string)
   \<Rightarrow> 'a BuildProcessorContext_scheme \<Rightarrow> FileSystem
   \<Rightarrow> string \<Rightarrow> uint64 \<Rightarrow> string \<Rightarrow> uint8 list \<Rightarrow> uint64
   \<Rightarrow> (Error + unit) \<times> 'a BuildProcessorContext_scheme \<times> FileSystem" where
  "CreateOutput io assetFilePath ctx fs type version name bytes dataSize =
     (let output = \<lparr>output_source = ContentId type name, output_id = AssetId type name,
                     output_version = version\<rparr>;
          filepath = assetFilePath (output_id output) version
      in case WriteWholeFile io fs filepath bytes (ucast dataSize) of
           (Inl e, fs') \<Rightarrow> (Inl e, ctx, fs')
         | (Inr ok, fs') \<Rightarrow> (Inr (), ctx\<lparr>outputs := outputs ctx @ [output]\<rparr>, fs'))"

section \<open>The scene baker (BuildCommon/BakeScene.cpp)\<close>

subsection \<open>The binary writer\<close>

text \<open>
  Modelled from the spec: the writer of \<^verbatim>\<open>IoLib/BinarySerializer.h\<close> is outside the
  translated sources. By the spec it writes raw bytes at the cursor, and it promises a
  pointer: the cursor is recorded as a relocation site, the pointee bytes are appended
  later, and the distance from the site to the pointee is stored at the site as a 64-bit
  offset. The writer keeps the raw bytes, the pointee bytes and the promised pointers;
  the finished blob is the raw bytes, with every site patched, followed by the pointee
  bytes. \<^verbatim>\<open>SerializerEnd\<close> returns an error value in the source; nothing is known of
  when it fails, and here it always yields the blob.
\<close>

record PointerDesc =
  pointerOffset :: nat
  pointerDataOffset :: nat

record BinaryWriter =
  rawData :: "uint8 list"
  pointerData :: "uint8 list"
  pointers :: "PointerDesc list"

definition SerializerStart :: "uint32 \<Rightarrow> uint32 \<Rightarrow> BinaryWriter" where
  "SerializerStart sizea sizeb = \<lparr>rawData = [], pointerData = [], pointers = []\<rparr>"

definition SerializerWrite :: "BinaryWriter \<Rightarrow> uint8 list \<Rightarrow> nat \<Rightarrow> BinaryWriter" where
  "SerializerWrite writer bytes n = writer\<lparr>rawData := rawData writer @ take n bytes\<rparr>"

definition SerializerWritePointerData :: "BinaryWriter \<Rightarrow> uint8 list \<Rightarrow> uint32 \<Rightarrow> BinaryWriter" where
  "SerializerWritePointerData writer bytes n =
     writer\<lparr>pointerData := pointerData writer @ take (unat n) bytes\<rparr>"

definition SerializerWritePointerOffsetX64 :: "BinaryWriter \<Rightarrow> BinaryWriter" where
  "SerializerWritePointerOffsetX64 writer =
     SerializerWrite
       (writer\<lparr>pointers := pointers writer @
          [\<lparr>pointerOffset = length (rawData writer),
            pointerDataOffset = length (pointerData writer)\<rparr>]\<rparr>)
       (replicate 8 0) 8"

text \<open>The position of a pointee in the finished blob, and the little-endian bytes.\<close>

definition pointee_position :: "BinaryWriter \<Rightarrow> PointerDesc \<Rightarrow> nat" where
  "pointee_position writer d = length (rawData writer) + pointerDataOffset d"

definition little_endian :: "nat \<Rightarrow> nat \<Rightarrow> uint8 list" where
  "little_endian n val = map (\<lambda>i. word_of_nat (val div 256 ^ i)) [0 ..< n]"

definition patch_pointer :: "BinaryWriter \<Rightarrow> uint8 list \<Rightarrow> PointerDesc \<Rightarrow> uint8 list" where
  "patch_pointer writer raw d =
     take (pointerOffset d) raw
     @ little_endian 8 (pointee_position writer d - pointerOffset d)
     @ drop (pointerOffset d + 8) raw"

definition SerializerEnd :: "BinaryWriter \<Rightarrow> uint8 list" where
  "SerializerEnd writer =
     foldl (patch_pointer writer) (rawData writer) (pointers writer) @ pointerData writer"

subsection \<open>Baking\<close>

text \<open>
  The buffers of \<^verbatim>\<open>BuiltScene\<close> are byte lists, \<^verbatim>\<open>DataSize\<close> is the 32-bit number of their
  bytes; the element counts that the meta data records, \<^verbatim>\<open>Length()\<close> in the source, are
  fields of their own, and the camera, the box and the sphere are their bytes. The array \<^verbatim>\<open>indices\<close> has \<^verbatim>\<open>eMeshIndexTypeCount\<close> elements, a constant declared
  outside the translated sources: it is the length of the list \<open>built_indices\<close>. The
  fields carry the prefix \<open>built_\<close>, since the geometry data of the model resource has
  fields of the same names.
\<close>

record BuiltScene =
  built_camera :: "uint8 list"
  built_aaBox :: "uint8 list"
  built_boundingSphere :: "uint8 list"
  built_textures :: "uint8 list"
  built_textureCount :: uint32
  built_materials :: "uint8 list"
  built_materialCount :: uint32
  built_meshCount :: uint32
  built_vertexCount :: uint32
  built_indexCounts :: "uint32 list"
  built_indices :: "uint8 list list"
  built_faceIndexCounts :: "uint8 list"
  built_positions :: "uint8 list"
  built_normals :: "uint8 list"
  built_tangents :: "uint8 list"
  built_uvs :: "uint8 list"
  built_materialIndices :: "uint8 list"

definition DataSize :: "uint8 list \<Rightarrow> uint32" where
  "DataSize buf = word_of_nat (length buf)"

text \<open>Modelled from the spec: \<^verbatim>\<open>SceneResource::kSceneDataAlignment\<close>, 16 bytes.\<close>

definition kSceneDataAlignment :: uint32 where
  "kSceneDataAlignment = 16"

definition SerializeMaterials :: "BinaryWriter \<Rightarrow> BuiltScene \<Rightarrow> BinaryWriter" where
  "SerializeMaterials writer sceneData =
     (let w1 = SerializerWrite writer (little_endian 4 (unat (built_textureCount sceneData))) 4;
          w2 = SerializerWrite w1 (little_endian 4 (unat (built_materialCount sceneData))) 4;
          w3 = SerializerWritePointerOffsetX64 w2;
          w4 = SerializerWritePointerData w3 (built_textures sceneData)
                 (DataSize (built_textures sceneData));
          w5 = SerializerWritePointerOffsetX64 w4
      in SerializerWritePointerData w5 (built_materials sceneData)
           (DataSize (built_materials sceneData)))"

text \<open>
  The padding loop of \<^verbatim>\<open>SerializeBufferAligned\<close>: one zero byte for every \<open>scan\<close> from
  \<^verbatim>\<open>dataSize\<close> up to \<^verbatim>\<open>alignedSize\<close>.
\<close>

function padding_loop :: "BinaryWriter \<Rightarrow> nat \<Rightarrow> nat \<Rightarrow> BinaryWriter" where
  "padding_loop writer scan alignedSize =
     (if scan < alignedSize
      then padding_loop (SerializerWritePointerData writer [0] 1) (scan + 1) alignedSize
      else writer)"
  by pat_completeness auto
termination
  by (relation "measure (\<lambda>(writer, scan, alignedSize). alignedSize - scan)") auto

definition SerializeBufferAligned ::
  "BinaryWriter \<Rightarrow> uint8 list \<Rightarrow> uint32 \<Rightarrow> uint32 \<Rightarrow> BinaryWriter" where
  "SerializeBufferAligned writer bytes dataSize pw2alignment =
     (let w1 = SerializerWritePointerOffsetX64 writer;
          w2 = SerializerWritePointerData w1 bytes dataSize;
          alignedSize = (dataSize + pw2alignment - 1) AND NOT (pw2alignment - 1)
      in padding_loop w2 (unat dataSize) (unat alignedSize))"

fun SerializeIndices :: "BinaryWriter \<Rightarrow> uint8 list list \<Rightarrow> BinaryWriter" where
  "SerializeIndices writer [] = writer"
| "SerializeIndices writer (buf # rest) =
     SerializeIndices (SerializeBufferAligned writer buf (DataSize buf) kSceneDataAlignment) rest"

definition SerializeGeometry :: "BinaryWriter \<Rightarrow> BuiltScene \<Rightarrow> BinaryWriter" where
  "SerializeGeometry writer sceneData =
     (let w0 = SerializeIndices writer (built_indices sceneData);
          w1 = SerializeBufferAligned w0 (built_faceIndexCounts sceneData)
                 (DataSize (built_faceIndexCounts sceneData)) kSceneDataAlignment;
          w2 = SerializeBufferAligned w1 (built_positions sceneData)
                 (DataSize (built_positions sceneData)) kSceneDataAlignment;
          w3 = SerializeBufferAligned w2 (built_normals sceneData)
                 (DataSize (built_normals sceneData)) kSceneDataAlignment;
          w4 = SerializeBufferAligned w3 (built_tangents sceneData)
                 (DataSize (built_tangents sceneData)) kSceneDataAlignment;
          w5 = SerializeBufferAligned w4 (built_uvs sceneData)
                 (DataSize (built_uvs sceneData)) kSceneDataAlignment
      in SerializeBufferAligned w5 (built_materialIndices sceneData)
           (DataSize (built_materialIndices sceneData)) kSceneDataAlignment)"

text \<open>
  The two blobs. The sizes passed to \<^verbatim>\<open>SerializerStart\<close> reserve capacity only. The type
  names and the version of \<^verbatim>\<open>SceneResource\<close> are declared outside the translated sources:
  they are the parameters \<open>kDataType\<close>, \<open>kGeometryDataType\<close> and \<open>kDataVersion\<close>.
\<close>

definition SceneMetaBlob :: "BuiltScene \<Rightarrow> uint8 list" where
  "SceneMetaBlob sceneData =
     (let presize = DataSize (built_textures sceneData) + DataSize (built_materials sceneData);
          w0 = SerializerStart 0 presize;
          w1 = SerializerWrite w0 (built_camera sceneData) (length (built_camera sceneData));
          w2 = SerializerWrite w1 (built_aaBox sceneData) (length (built_aaBox sceneData));
          w3 = SerializerWrite w2 (built_boundingSphere sceneData)
                 (length (built_boundingSphere sceneData));
          w4 = SerializeMaterials w3 sceneData;
          w5 = SerializerWrite w4 (little_endian 4 (unat (built_meshCount sceneData))) 4;
          w6 = SerializerWrite w5 (little_endian 4 (unat (built_vertexCount sceneData))) 4;
          w7 = SerializerWrite w6
                 (concat (map (\<lambda>c. little_endian 4 (unat c)) (built_indexCounts sceneData)))
                 (4 * length (built_indexCounts sceneData))
      in SerializerEnd w7)"

definition geometryDataSize :: "BuiltScene \<Rightarrow> uint32" where
  "geometryDataSize sceneData =
     (let indexSize = foldl (\<lambda>s buf. s + DataSize buf) 0 (built_indices sceneData)
      in indexSize + 1024
         + DataSize (built_faceIndexCounts sceneData)
         + DataSize (built_positions sceneData)
         + DataSize (built_normals sceneData)
         + DataSize (built_tangents sceneData)
         + DataSize (built_uvs sceneData)
         + DataSize (built_materialIndices sceneData))"

definition GeometryWriter :: "BuiltScene \<Rightarrow> BinaryWriter" where
  "GeometryWriter sceneData =
     SerializeGeometry (SerializerStart 0 (geometryDataSize sceneData)) sceneData"

definition SceneGeometryBlob :: "BuiltScene \<Rightarrow> uint8 list" where
  "SceneGeometryBlob sceneData = SerializerEnd (GeometryWriter sceneData)"

definition BakeSceneMetaData ::
  "io_outcome \<Rightarrow> (AssetId \<Rightarrow> uint64 \<Rightarrow> string) \<Rightarrow> string \<Rightarrow> uint64
   \<Rightarrow> 'a BuildProcessorContext_scheme \<Rightarrow> FileSystem \<Rightarrow> BuiltScene
   \<Rightarrow> (Error + unit) \<times> 'a BuildProcessorContext_scheme \<times> FileSystem" where
  "BakeSceneMetaData io assetFilePath kDataType kDataVersion ctx fs sceneData =
     (let assetData = SceneMetaBlob sceneData;
          assetSize = (word_of_nat (length assetData) :: uint32)
      in CreateOutput io assetFilePath ctx fs kDataType kDataVersion
           (content_name (context_source ctx)) assetData (ucast assetSize))"

definition BakeSceneGeometryData ::
  "io_outcome \<Rightarrow> (AssetId \<Rightarrow> uint64 \<Rightarrow> string) \<Rightarrow> string \<Rightarrow> uint64
   \<Rightarrow> 'a BuildProcessorContext_scheme \<Rightarrow> FileSystem \<Rightarrow> BuiltScene
   \<Rightarrow> (Error + unit) \<times> 'a BuildProcessorContext_scheme \<times> FileSystem" where
  "BakeSceneGeometryData io assetFilePath kGeometryDataType kDataVersion ctx fs sceneData =
     (let assetData = SceneGeometryBlob sceneData;
          assetSize = (word_of_nat (length assetData) :: uint32)
      in CreateOutput io assetFilePath ctx fs kGeometryDataType kDataVersion
           (content_name (context_source ctx)) assetData (ucast assetSize))"

text \<open>\<^verbatim>\<open>BakeScene\<close>: the meta data first; the geometry only when that succeeded.\<close>

definition BakeScene ::
  "io_outcome \<Rightarrow> io_outcome \<Rightarrow> (AssetId \<Rightarrow> uint64 \<Rightarrow> string) \<Rightarrow> string \<Rightarrow> string \<Rightarrow> uint64
   \<Rightarrow> 'a BuildProcessorContext_scheme \<Rightarrow> FileSystem \<Rightarrow> BuiltScene
   \<Rightarrow> (Error + unit) \<times> 'a BuildProcessorContext_scheme \<times> FileSystem" where
  "BakeScene io1 io2 assetFilePath kDataType kGeometryDataType kDataVersion ctx fs sceneData =
     (case BakeSceneMetaData io1 assetFilePath kDataType kDataVersion ctx fs sceneData of
        (Inl e, ctx1, fs1) \<Rightarrow> (Inl e, ctx1, fs1)
      | (Inr ok, ctx1, fs1) \<Rightarrow>
          BakeSceneGeometryData io2 assetFilePath kGeometryDataType kDataVersion ctx1 fs1
            sceneData)"

text \<open>
  The buffers that \<^verbatim>\<open>SerializeGeometry\<close> embeds, in their order, and a buffer followed by
  the zero bytes that bring its length to a multiple of 16.
\<close>

definition scene_buffers :: "BuiltScene \<Rightarrow> uint8 list list" where
  "scene_buffers sceneData =
     built_indices sceneData @
     [built_faceIndexCounts sceneData, built_positions sceneData, built_normals sceneData,
      built_tangents sceneData, built_uvs sceneData, built_materialIndices sceneData]"

definition padded :: "uint8 list \<Rightarrow> uint8 list" where
  "padded buf = buf @ replicate ((16 - length buf mod 16) mod 16) 0"

text \<open>
  The pointers expected for a sequence of buffers: sites 8 bytes apart, each pointee
  after the padded buffers before it.
\<close>

fun expected_pointers :: "nat \<Rightarrow> nat \<Rightarrow> uint8 list list \<Rightarrow> PointerDesc list" where
  "expected_pointers site off [] = []"
| "expected_pointers site off (buf # rest) =
     \<lparr>pointerOffset = site, pointerDataOffset = off\<rparr>
     # expected_pointers (site + 8) (off + length (padded buf)) rest"

subsection \<open>Sample values\<close>

definition black :: float3 where
  "black = float3_of 0 0 0"

definition white :: float3 where
  "white = float3_of 1 1 1"

definition blackImage :: "nat \<Rightarrow> float3" where
  "blackImage i = black"

definition sampleRay :: "uint32 \<Rightarrow> Ray" where
  "sampleRay bounce = MakeRay black (float3_of 0 0 1) white 2 bounce"

definition emptyStack :: "nat \<Rightarrow> Ray" where
  "emptyStack i = sampleRay 0"

definition sampleContext :: "uint32 \<Rightarrow> uint32 \<Rightarrow> KernelContext" where
  "sampleContext count capacity =
     \<lparr>imageData = blackImage, rayStack = emptyStack, rayStackCount = count,
      rayStackCapacity = capacity, maxPathLength = 8\<rparr>"

definition sampleHit :: HitParameters where
  "sampleHit = \<lparr>hit_viewDirection = float3_of 0 0 1, hit_throughput = white,
                 hit_pixelIndex = 2, hit_bounceCount = 3\<rparr>"

definition sampleDifferentials :: SurfaceDifferentials where
  "sampleDifferentials = \<lparr>dndu = black, dndv = black,
     duvdx = \<lparr>u = Finite 0, v = Finite 0\<rparr>, duvdy = \<lparr>u = Finite 0, v = Finite 0\<rparr>\<rparr>"

definition sampleSurface :: "float3 \<Rightarrow> uint32 \<Rightarrow> SurfaceParameters" where
  "sampleSurface rx fl =
     \<lparr>position = black, perturbedNormal = float3_of 0 1 0, rxDirection = rx,
      ryDirection = float3_of 0 1 0, differentials = sampleDifferentials,
      materialFlags = fl\<rparr>"

definition sampleOffset :: "SurfaceParameters \<Rightarrow> float3 \<Rightarrow> float \<Rightarrow> float3" where
  "sampleOffset surface wi s = position surface"

definition infiniteValue :: float3 where
  "infiniteValue = \<lparr>x = PosInf, y = Finite 0, z = Finite 0\<rparr>"

definition sampleAttributes :: "ScalarAttribute \<Rightarrow> float" where
  "sampleAttributes a = Finite 0"

definition sampleMaterial :: "uint32 \<Rightarrow> Material" where
  "sampleMaterial fl =
     \<lparr>baseColor = white, shader = eDisneyThin, scalarAttributeValues = sampleAttributes,
      flags = fl\<rparr>"

definition sampleGeometry :: ModelGeometryData where
  "sampleGeometry =
     \<lparr>normalsSize = 0, tangentsSize = 0, uvsSize = 0, indices = 4096,
      faceIndexCounts = 8192, positions = 12288, normals = 0, tangents = 0, uvs = 0\<rparr>"

definition sampleMesh :: "Hash32 \<Rightarrow> uint32 \<Rightarrow> MeshMetaData" where
  "sampleMesh h ipf =
     \<lparr>indexCount = 12, indexOffset = 0, vertexCount = 8, vertexOffset = 0,
      materialHash = h, indicesPerFace = ipf, meshNameHash = 7\<rparr>"

definition sampleModel :: ModelResource where
  "sampleModel =
     \<lparr>data = \<lparr>totalVertexCount = 8,
              materials = [sampleMaterial 0, sampleMaterial 1, sampleMaterial 2],
              materialHashes = [10, 20, 30],
              meshes = [sampleMesh 20 4, sampleMesh 10 3, sampleMesh 25 4]\<rparr>,
      geometry = sampleGeometry,
      defaultMaterial = Some (CreateDefaultMaterial (sampleMaterial 0)),
      rtcGeometries = [], userDatas = []\<rparr>"

definition hugeBuffer :: "uint8 list" where
  "hugeBuffer = replicate 4294967284 0"

definition sampleScene :: "uint8 list \<Rightarrow> BuiltScene" where
  "sampleScene faces =
     \<lparr>built_camera = [], built_aaBox = [], built_boundingSphere = [],
      built_textures = [], built_textureCount = 0,
      built_materials = [], built_materialCount = 0,
      built_meshCount = 1, built_vertexCount = 1, built_indexCounts = [3, 0, 0, 0],
      built_indices = [[], [], [], []],
      built_faceIndexCounts = faces,
      built_positions = [1, 2, 3, 4],
      built_normals = [], built_tangents = [], built_uvs = [],
      built_materialIndices = []\<rparr>"

definition noFiles :: FileSystem where
  "noFiles path = None"

definition samplePath :: "AssetId \<Rightarrow> uint64 \<Rightarrow> string" where
  "samplePath a version = (case a of AssetId t n \<Rightarrow> t @ ''/'' @ n @ ''.bin'')"

definition sampleBuild :: BuildProcessorContext where
  "sampleBuild = \<lparr>context_source = ContentId ''model'' ''box'', outputs = []\<rparr>"

definition longData :: "uint8 list" where
  "longData = [1, 2, 3] @ replicate 4294967296 0"

section \<open>Properties of the numbers\<close>

text \<open>
  Rounding evaluated: small integers are values of the format, a tie goes to the even
  significand, and \<^verbatim>\<open>2^128\<close> overflows.
\<close>

lemma binary32_eval:
  assumes "quantum_exponent 0 (\<bar>r\<bar> * 2 ^ 149) = k"
    and "round_half_even (\<bar>r\<bar> * 2 ^ 149 / 2 ^ k) = m"
  shows "binary32 r =
           (if 2 ^ 277 \<le> of_int m * (2 :: real) ^ k
            then (if r < 0 then NegInf else PosInf)
            else Finite (sgn r * (of_int m * 2 ^ k / 2 ^ 149)))"
  using assms by (simp add: binary32_def Let_def)

lemma binary32_0: "binary32 0 = Finite 0"
proof -
  have k: "quantum_exponent 0 (\<bar>0\<bar> * 2 ^ 149) = 0"
    by (simp add: quantum_exponent.simps)
  have m: "round_half_even (\<bar>0\<bar> * 2 ^ 149 / 2 ^ 0) = 0"
    by (simp add: round_half_even_def Let_def)
  show ?thesis by (simp add: binary32_eval [OF k m])
qed

lemma binary32_1: "binary32 1 = Finite 1"
proof -
  have k: "quantum_exponent 0 (\<bar>1\<bar> * 2 ^ 149) = 126"
    by (simp add: quantum_exponent.simps)
  have m: "round_half_even (\<bar>1\<bar> * 2 ^ 149 / 2 ^ 126) = 8388608"
    by (simp add: round_half_even_def Let_def)
  show ?thesis by (simp add: binary32_eval [OF k m])
qed

lemma binary32_2: "binary32 2 = Finite 2"
proof -
  have k: "quantum_exponent 0 (\<bar>2\<bar> * 2 ^ 149) = 127"
    by (simp add: quantum_exponent.simps)
  have m: "round_half_even (\<bar>2\<bar> * 2 ^ 149 / 2 ^ 127) = 8388608"
    by (simp add: round_half_even_def Let_def)
  show ?thesis by (simp add: binary32_eval [OF k m])
qed

lemma binary32_3: "binary32 3 = Finite 3"
proof -
  have k: "quantum_exponent 0 (\<bar>3\<bar> * 2 ^ 149) = 127"
    by (simp add: quantum_exponent.simps)
  have m: "round_half_even (\<bar>3\<bar> * 2 ^ 149 / 2 ^ 127) = 12582912"
    by (simp add: round_half_even_def Let_def)
  show ?thesis by (simp add: binary32_eval [OF k m])
qed

lemma binary32_ties_to_even: "binary32 16777217 = Finite 16777216"
proof -
  have k: "quantum_exponent 0 (\<bar>16777217\<bar> * 2 ^ 149) = 127 + 23"
    by (simp add: quantum_exponent.simps)
  have m: "round_half_even (\<bar>16777217\<bar> * 2 ^ 149 / 2 ^ (127 + 23)) = 8388608"
    by (simp add: round_half_even_def Let_def)
  show ?thesis by (simp add: binary32_eval [OF k m])
qed

lemma binary32_overflow: "binary32 (2 ^ 128) = PosInf"
proof -
  have k: "quantum_exponent 0 (\<bar>2 ^ 128\<bar> * 2 ^ 149) = 253"
    by (simp add: quantum_exponent.simps)
  have m: "round_half_even (\<bar>2 ^ 128\<bar> * 2 ^ 149 / 2 ^ 253) = 16777216"
    by (simp add: round_half_even_def Let_def)
  from binary32_eval [OF k m] show ?thesis by simp
qed

lemmas binary32_small = binary32_0 binary32_1 binary32_2 binary32_3

section \<open>Properties of the integrator contexts\<close>

subsection \<open>The ray stack\<close>

lemma stack_entries_push:
  assumes "rayStackCount ctx + 1 \<noteq> 0"
  shows "stack_entries (ctx\<lparr>rayStack := (rayStack ctx)(unat (rayStackCount ctx) := ray),
                           rayStackCount := rayStackCount ctx + 1\<rparr>)
         = stack_entries ctx @ [ray]"
proof -
  have "unat (rayStackCount ctx + 1) = Suc (unat (rayStackCount ctx))"
    using assms unatSuc [of "rayStackCount ctx"] by (simp add: add.commute)
  then show ?thesis by (simp add: stack_entries_def)
qed

lemma stack_entries_wrap:
  "stack_entries (ctx\<lparr>rayStack := s, rayStackCount := 0\<rparr>) = []"
  by (simp add: stack_entries_def)

lemma InsertRay_keeps_bound:
  assumes "stack_within_bound ctx" and "InsertRay ctx ray = Inr ctx'"
  shows "stack_within_bound ctx'"
proof (cases "rayStackCount ctx + 1 = 0")
  case True
  with assms show ?thesis
    by (auto simp: InsertRay_def stack_within_bound_def stack_entries_wrap split: if_splits)
next
  case False
  with assms show ?thesis
    by (auto simp: InsertRay_def stack_within_bound_def stack_entries_push split: if_splits)
qed

text \<open>
  C1. A call of \<^verbatim>\<open>InsertRay\<close> with a ray whose bounce count equals \<^verbatim>\<open>maxPathLength\<close>
  returns the context as it was: stack contents, stack count and every other field are
  unchanged. Hence the bound on the stack entries is kept by every call that returns: a
  ray at the bound never appears on the stack.
\<close>

theorem InsertRay_at_path_length_bound:
  "(bounceCount ray = maxPathLength ctx \<longrightarrow> InsertRay ctx ray = Inr ctx) \<and>
   (stack_within_bound ctx \<and> InsertRay ctx ray2 = Inr ctx' \<longrightarrow> stack_within_bound ctx')"
  using InsertRay_keeps_bound [of ctx ray2 ctx'] by (simp add: InsertRay_def)

theorem InsertRay_at_path_length_bound_witness:
  "bounceCount (sampleRay 8) = maxPathLength (sampleContext 0 4) \<and>
   InsertRay (sampleContext 0 4) (sampleRay 8) = Inr (sampleContext 0 4) \<and>
   stack_within_bound (sampleContext 0 4) \<and>
   InsertRay (sampleContext 0 4) (sampleRay 1)
     = Inr ((sampleContext 0 4)\<lparr>rayStack := emptyStack(0 := sampleRay 1), rayStackCount := 1\<rparr>) \<and>
   stack_within_bound
     ((sampleContext 0 4)\<lparr>rayStack := emptyStack(0 := sampleRay 1), rayStackCount := 1\<rparr>)"
proof -
  have a: "bounceCount (sampleRay 8) = maxPathLength (sampleContext 0 4)"
    by (simp add: sampleRay_def sampleContext_def MakeRay_def)
  have b: "stack_within_bound (sampleContext 0 4)"
    by (simp add: stack_within_bound_def stack_entries_def sampleContext_def)
  have c: "InsertRay (sampleContext 0 4) (sampleRay 1)
     = Inr ((sampleContext 0 4)\<lparr>rayStack := emptyStack(0 := sampleRay 1), rayStackCount := 1\<rparr>)"
    by (simp add: InsertRay_def sampleRay_def sampleContext_def MakeRay_def)
  from a b c
    InsertRay_at_path_length_bound [of "sampleRay 8" "sampleContext 0 4" "sampleRay 1"
      "(sampleContext 0 4)\<lparr>rayStack := emptyStack(0 := sampleRay 1), rayStackCount := 1\<rparr>"]
  show ?thesis by simp
qed

text \<open>
  C2 as stated does not hold: the guard of \<^verbatim>\<open>InsertRay\<close> is the inequality
  \<^verbatim>\<open>rayStackCount + 1 != rayStackCapacity\<close>. With a stack count equal to the capacity
  the assertion passes and the ray is stored at index 3 of a stack of capacity 3.
\<close>

theorem InsertRay_full_stack_counterexample:
  "bounceCount (sampleRay 1) \<noteq> maxPathLength (sampleContext 3 3) \<and>
   InsertRay (sampleContext 3 3) (sampleRay 1)
     = Inr ((sampleContext 3 3)\<lparr>rayStack := emptyStack(3 := sampleRay 1), rayStackCount := 4\<rparr>) \<and>
   \<not> rayStackCount (sampleContext 3 3) < rayStackCapacity (sampleContext 3 3)"
  by (simp add: InsertRay_def sampleRay_def sampleContext_def MakeRay_def)

text \<open>
  C2, amended. In a context where \<^verbatim>\<open>rayStackCount < rayStackCapacity\<close> holds before the
  call, every ray that \<^verbatim>\<open>InsertRay\<close> pushes passed the guard, is stored at index
  \<^verbatim>\<open>rayStackCount\<close> within the capacity, and \<^verbatim>\<open>rayStackCount < rayStackCapacity\<close>
  holds again after the push.
\<close>

theorem InsertRay_capacity_invariant:
  assumes "rayStackCount ctx < rayStackCapacity ctx"
    and "bounceCount ray \<noteq> maxPathLength ctx"
    and "InsertRay ctx ray = Inr ctx'"
  shows "rayStackCount ctx + 1 \<noteq> rayStackCapacity ctx \<and>
         ctx' = ctx\<lparr>rayStack := (rayStack ctx)(unat (rayStackCount ctx) := ray),
                    rayStackCount := rayStackCount ctx + 1\<rparr> \<and>
         unat (rayStackCount ctx) < unat (rayStackCapacity ctx) \<and>
         rayStackCount ctx' < rayStackCapacity ctx'"
proof -
  from assms(2,3) have guard: "rayStackCount ctx + 1 \<noteq> rayStackCapacity ctx"
    and push: "ctx' = ctx\<lparr>rayStack := (rayStack ctx)(unat (rayStackCount ctx) := ray),
                    rayStackCount := rayStackCount ctx + 1\<rparr>"
    by (auto simp: InsertRay_def split: if_splits)
  from assms(1) have "rayStackCount ctx + 1 \<le> rayStackCapacity ctx"
    by (rule inc_le)
  with guard have "rayStackCount ctx + 1 < rayStackCapacity ctx"
    by simp
  with push guard assms(1) show ?thesis
    by (simp add: word_less_nat_alt)
qed

theorem InsertRay_capacity_invariant_witness:
  "rayStackCount (sampleContext 1 4) < rayStackCapacity (sampleContext 1 4) \<and>
   bounceCount (sampleRay 1) \<noteq> maxPathLength (sampleContext 1 4) \<and>
   InsertRay (sampleContext 1 4) (sampleRay 1)
     = Inr ((sampleContext 1 4)\<lparr>rayStack := emptyStack(1 := sampleRay 1), rayStackCount := 2\<rparr>) \<and>
   unat (rayStackCount (sampleContext 1 4)) < unat (rayStackCapacity (sampleContext 1 4)) \<and>
   rayStackCount ((sampleContext 1 4)\<lparr>rayStack := emptyStack(1 := sampleRay 1), rayStackCount := 2\<rparr>)
     < rayStackCapacity
         ((sampleContext 1 4)\<lparr>rayStack := emptyStack(1 := sampleRay 1), rayStackCount := 2\<rparr>)"
proof -
  have a: "rayStackCount (sampleContext 1 4) < rayStackCapacity (sampleContext 1 4)"
    by (simp add: sampleContext_def)
  have b: "bounceCount (sampleRay 1) \<noteq> maxPathLength (sampleContext 1 4)"
    by (simp add: sampleRay_def sampleContext_def MakeRay_def)
  have c: "InsertRay (sampleContext 1 4) (sampleRay 1)
     = Inr ((sampleContext 1 4)\<lparr>rayStack := emptyStack(1 := sampleRay 1), rayStackCount := 2\<rparr>)"
    by (simp add: InsertRay_def sampleRay_def sampleContext_def MakeRay_def)
  from InsertRay_capacity_invariant [OF a b c] a b c show ?thesis
    by blast
qed

subsection \<open>The image accumulator\<close>

lemma fadd_nonfinite: "\<not> is_finite b \<Longrightarrow> \<not> is_finite (fadd a b)"
  by (cases a; cases b) simp_all

lemma float3_add_nonfinite: "\<not> float3_finite b \<Longrightarrow> \<not> float3_finite (float3_add a b)"
  by (auto simp: float3_finite_def float3_add_def fadd_nonfinite)

text \<open>
  C3 as stated does not hold: with throughput \<open>(1, 1, 1)\<close> and the value
  \<open>(+\<infinity>, 0, 0)\<close> the contribution is not finite, and the pixel cell changes from black
  to \<open>(+\<infinity>, 0, 0)\<close>.
\<close>

theorem AccumulatePixelEnergy_infinite_counterexample:
  "\<not> float3_finite (float3_mul (throughput (sampleRay 1)) infiniteValue) \<and>
   imageData (AccumulatePixelEnergy_Ray (sampleContext 0 4) (sampleRay 1) infiniteValue)
      (unat (pixelIndex (sampleRay 1)))
     = infiniteValue \<and>
   imageData (sampleContext 0 4) (unat (pixelIndex (sampleRay 1))) = black \<and>
   infiniteValue \<noteq> black"
  by (simp add: AccumulatePixelEnergy_Ray_def sampleRay_def sampleContext_def MakeRay_def
      float3_finite_def float3_mul_def float3_add_def infiniteValue_def white_def black_def
      binary32_small
      blackImage_def float3_of_def inf_times_def)

text \<open>
  C3, amended. Neither overload of \<^verbatim>\<open>AccumulatePixelEnergy\<close> tests the contribution. For
  every call the result is the context in which the cell at the pixel index holds the old
  cell plus throughput times value, and every other cell and every other field is as
  before: no sample is dropped and nothing is counted. So a contribution that is not
  finite is added like any other, and the cell is not finite afterwards.
\<close>

theorem AccumulatePixelEnergy_unconditional:
  "AccumulatePixelEnergy_Ray ctx ray val
     = ctx\<lparr>imageData := (imageData ctx)(unat (pixelIndex ray) :=
             float3_add (imageData ctx (unat (pixelIndex ray)))
                        (float3_mul (throughput ray) val))\<rparr> \<and>
   AccumulatePixelEnergy_Hit ctx hit val
     = ctx\<lparr>imageData := (imageData ctx)(unat (hit_pixelIndex hit) :=
             float3_add (imageData ctx (unat (hit_pixelIndex hit)))
                        (float3_mul (hit_throughput hit) val))\<rparr> \<and>
   (\<not> float3_finite (float3_mul (throughput ray) val) \<longrightarrow>
      \<not> float3_finite (imageData (AccumulatePixelEnergy_Ray ctx ray val)
                            (unat (pixelIndex ray)))) \<and>
   (\<not> float3_finite (float3_mul (hit_throughput hit) val) \<longrightarrow>
      \<not> float3_finite (imageData (AccumulatePixelEnergy_Hit ctx hit val)
                            (unat (hit_pixelIndex hit))))"
  by (simp add: AccumulatePixelEnergy_Ray_def AccumulatePixelEnergy_Hit_def float3_add_nonfinite)

theorem AccumulatePixelEnergy_unconditional_witness:
  "AccumulatePixelEnergy_Ray (sampleContext 0 4) (sampleRay 1) infiniteValue
     = (sampleContext 0 4)\<lparr>imageData := blackImage(2 := infiniteValue)\<rparr> \<and>
   AccumulatePixelEnergy_Hit (sampleContext 0 4) sampleHit infiniteValue
     = (sampleContext 0 4)\<lparr>imageData := blackImage(2 := infiniteValue)\<rparr> \<and>
   \<not> float3_finite (float3_mul (throughput (sampleRay 1)) infiniteValue) \<and>
   \<not> float3_finite (imageData (AccumulatePixelEnergy_Ray (sampleContext 0 4) (sampleRay 1)
                          infiniteValue) (unat (pixelIndex (sampleRay 1)))) \<and>
   \<not> float3_finite (float3_mul (hit_throughput sampleHit) infiniteValue) \<and>
   \<not> float3_finite (imageData (AccumulatePixelEnergy_Hit (sampleContext 0 4) sampleHit
                          infiniteValue) (unat (hit_pixelIndex sampleHit)))"
proof -
  have prod: "float3_mul white infiniteValue = infiniteValue"
    by (simp add: float3_mul_def infiniteValue_def white_def float3_of_def inf_times_def
        binary32_small)
  have sum: "float3_add (blackImage 2) infiniteValue = infiniteValue"
    by (simp add: float3_add_def blackImage_def black_def infiniteValue_def float3_of_def
        binary32_small)
  have fields: "throughput (sampleRay 1) = white" "unat (pixelIndex (sampleRay 1)) = 2"
    "hit_throughput sampleHit = white" "unat (hit_pixelIndex sampleHit) = 2"
    "imageData (sampleContext 0 4) = blackImage"
    by (simp_all add: sampleRay_def MakeRay_def sampleHit_def sampleContext_def)
  have inf: "\<not> float3_finite infiniteValue"
    by (simp add: float3_finite_def infiniteValue_def)
  note inst = AccumulatePixelEnergy_unconditional
      [of "sampleContext 0 4" "sampleRay 1" infiniteValue sampleHit,
       unfolded fields prod sum]
  from inst inf show ?thesis
    unfolding fields prod by (elim conjE, intro conjI) simp_all
qed

text \<open>
  C7. For a ray and a hit with the same pixel index \<open>p\<close> and the same throughput \<open>t\<close>
  the two overloads of \<^verbatim>\<open>AccumulatePixelEnergy\<close> return the same context: the cell at
  \<open>p\<close> has \<open>t * val\<close> added, every other cell and every other field is as before.
\<close>

theorem AccumulatePixelEnergy_overloads_agree:
  assumes "pixelIndex ray = p" and "throughput ray = t"
    and "hit_pixelIndex hit = p" and "hit_throughput hit = t"
  shows "AccumulatePixelEnergy_Ray ctx ray val = AccumulatePixelEnergy_Hit ctx hit val \<and>
         AccumulatePixelEnergy_Ray ctx ray val
           = ctx\<lparr>imageData := (imageData ctx)(unat p :=
                   float3_add (imageData ctx (unat p)) (float3_mul t val))\<rparr>"
  using assms by (simp add: AccumulatePixelEnergy_Ray_def AccumulatePixelEnergy_Hit_def)

theorem AccumulatePixelEnergy_overloads_agree_witness:
  "pixelIndex (sampleRay 1) = 2 \<and> throughput (sampleRay 1) = white \<and>
   hit_pixelIndex sampleHit = 2 \<and> hit_throughput sampleHit = white \<and>
   AccumulatePixelEnergy_Ray (sampleContext 0 4) (sampleRay 1) (float3_of 1 2 3)
     = AccumulatePixelEnergy_Hit (sampleContext 0 4) sampleHit (float3_of 1 2 3) \<and>
   AccumulatePixelEnergy_Ray (sampleContext 0 4) (sampleRay 1) (float3_of 1 2 3)
     = (sampleContext 0 4)\<lparr>imageData := blackImage(2 := float3_of 1 2 3)\<rparr>"
proof -
  have a: "pixelIndex (sampleRay 1) = 2" "throughput (sampleRay 1) = white"
    by (simp_all add: sampleRay_def MakeRay_def)
  have b: "hit_pixelIndex sampleHit = 2" "hit_throughput sampleHit = white"
    by (simp_all add: sampleHit_def)
  have c: "float3_add (blackImage 2) (float3_mul white (float3_of 1 2 3)) = float3_of 1 2 3"
    by (simp add: blackImage_def black_def white_def float3_of_def float3_add_def float3_mul_def
        binary32_small)
  have d: "imageData (sampleContext 0 4) = blackImage"
    by (simp add: sampleContext_def)
  from AccumulatePixelEnergy_overloads_agree [OF a b, of "sampleContext 0 4" "float3_of 1 2 3"]
  have "AccumulatePixelEnergy_Ray (sampleContext 0 4) (sampleRay 1) (float3_of 1 2 3)
          = AccumulatePixelEnergy_Hit (sampleContext 0 4) sampleHit (float3_of 1 2 3)"
    and "AccumulatePixelEnergy_Ray (sampleContext 0 4) (sampleRay 1) (float3_of 1 2 3)
          = (sampleContext 0 4)\<lparr>imageData := blackImage(2 := float3_of 1 2 3)\<rparr>"
    by (auto simp: c d)
  with a b show ?thesis by blast
qed

subsection \<open>Bounce rays\<close>

text \<open>What the two builders test: the flag mask, and the \<^verbatim>\<open>x\<close> or \<^verbatim>\<open>y\<close> component.\<close>

lemma CreateReflectionBounceRay_differentials_iff:
  "rayDifferentials (CreateReflectionBounceRay offs ePRD surface hit wi reflectance) \<noteq> None
   \<longleftrightarrow> (materialFlags surface AND ePRD) \<noteq> 0 \<and>
       (fnonzero (x (rxDirection surface)) \<or> fnonzero (y (rxDirection surface)))"
  by (simp add: CreateReflectionBounceRay_def rayHasDifferentials_def MakeReflectionRay_def
      MakeRay_def Let_def)

lemma CreateRefractionBounceRay_differentials_iff:
  "rayDifferentials (CreateRefractionBounceRay offs ePRD surface hit wi reflectance iorRatio) \<noteq> None
   \<longleftrightarrow> (materialFlags surface AND ePRD) \<noteq> 0 \<and>
       (fnonzero (x (rxDirection surface)) \<or> fnonzero (y (rxDirection surface)))"
  by (simp add: CreateRefractionBounceRay_def rayHasDifferentials_def MakeRefractionRay_def
      MakeRay_def Let_def)

text \<open>
  C6. The claim: the bounce ray has transformed differentials if and only if the flag is
  set and \<^verbatim>\<open>surface.rxDirection\<close> is nonzero. The source tests only the \<^verbatim>\<open>x\<close> and \<^verbatim>\<open>y\<close>
  components: for the nonzero direction \<open>(0, 0, 1)\<close> with the flag set, both builders
  return the plain ray of \<^verbatim>\<open>MakeRay\<close>, which has no differentials.
\<close>

theorem bounce_ray_along_z_loses_differentials:
  "(materialFlags (sampleSurface (float3_of 0 0 1) 4) AND 4) \<noteq> 0 \<and>
   rxDirection (sampleSurface (float3_of 0 0 1) 4) = float3_of 0 0 1 \<and>
   float3_of 0 0 1 \<noteq> float3_of 0 0 0 \<and>
   CreateReflectionBounceRay sampleOffset 4 (sampleSurface (float3_of 0 0 1) 4) sampleHit
       (float3_of 0 1 0) white
     = MakeRay black (float3_of 0 1 0) white 2 4 \<and>
   CreateRefractionBounceRay sampleOffset 4 (sampleSurface (float3_of 0 0 1) 4) sampleHit
       (float3_of 0 1 0) white (Finite (3/2))
     = MakeRay black (float3_of 0 1 0) white 2 4 \<and>
   rayDifferentials (MakeRay black (float3_of 0 1 0) white 2 4) = None"
  by (simp add: CreateReflectionBounceRay_def CreateRefractionBounceRay_def
      rayHasDifferentials_def sampleSurface_def sampleHit_def sampleOffset_def MakeRay_def
      float3_of_def float3_mul_def white_def black_def binary32_small)

text \<open>
  C10. On either branch, the ray built by \<^verbatim>\<open>CreateReflectionBounceRay\<close> and by
  \<^verbatim>\<open>CreateRefractionBounceRay\<close> has the pixel index of the hit, the bounce count of the
  hit plus one, and the componentwise product of the hit's throughput and the reflectance
  as throughput.
\<close>

theorem bounce_ray_carries_hit_state:
  "pixelIndex (CreateReflectionBounceRay offs ePRD surface hit wi reflectance) = hit_pixelIndex hit \<and>
   bounceCount (CreateReflectionBounceRay offs ePRD surface hit wi reflectance)
     = hit_bounceCount hit + 1 \<and>
   throughput (CreateReflectionBounceRay offs ePRD surface hit wi reflectance)
     = float3_mul (hit_throughput hit) reflectance \<and>
   pixelIndex (CreateRefractionBounceRay offs ePRD surface hit wi reflectance iorRatio)
     = hit_pixelIndex hit \<and>
   bounceCount (CreateRefractionBounceRay offs ePRD surface hit wi reflectance iorRatio)
     = hit_bounceCount hit + 1 \<and>
   throughput (CreateRefractionBounceRay offs ePRD surface hit wi reflectance iorRatio)
     = float3_mul (hit_throughput hit) reflectance"
  by (simp add: CreateReflectionBounceRay_def CreateRefractionBounceRay_def
      MakeReflectionRay_def MakeRefractionRay_def MakeRay_def Let_def)

section \<open>Properties of the model resource\<close>

subsection \<open>Binary search\<close>

declare BinarySearch_loop.simps [simp del]

lemma BinarySearch_loop_sound:
  "BinarySearch_loop xs lo hi key = Some i \<Longrightarrow> lo \<le> i \<and> i < hi \<and> xs ! i = key"
proof (induction xs lo hi key rule: BinarySearch_loop.induct)
  case (1 xs lo hi key)
  show ?case
  proof (cases "lo < hi")
    case False
    with "1.prems" show ?thesis by (simp add: BinarySearch_loop.simps)
  next
    case True
    let ?mid = "(lo + hi) div 2"
    from True have bounds: "lo \<le> ?mid" "?mid < hi" by simp_all
    consider (eq) "xs ! ?mid = key" | (below) "xs ! ?mid \<noteq> key" "xs ! ?mid < key"
      | (above) "xs ! ?mid \<noteq> key" "\<not> xs ! ?mid < key"
      by blast
    then show ?thesis
    proof cases
      case eq
      with True "1.prems" bounds show ?thesis
        by (simp add: BinarySearch_loop.simps [of xs lo hi] Let_def)
    next
      case below
      with True "1.prems" have "BinarySearch_loop xs (?mid + 1) hi key = Some i"
        by (simp add: BinarySearch_loop.simps [of xs lo hi] Let_def)
      with "1.IH"(1) [OF True refl below] bounds show ?thesis by simp
    next
      case above
      with True "1.prems" have "BinarySearch_loop xs lo ?mid key = Some i"
        by (simp add: BinarySearch_loop.simps [of xs lo hi] Let_def)
      with "1.IH"(2) [OF True refl above] bounds show ?thesis by simp
    qed
  qed
qed

lemma BinarySearch_loop_complete:
  "sorted xs \<Longrightarrow> hi \<le> length xs \<Longrightarrow> lo \<le> i \<Longrightarrow> i < hi \<Longrightarrow> xs ! i = key
   \<Longrightarrow> BinarySearch_loop xs lo hi key \<noteq> None"
proof (induction xs lo hi key rule: BinarySearch_loop.induct)
  case (1 xs lo hi key)
  from "1.prems" have lt: "lo < hi" by simp
  let ?mid = "(lo + hi) div 2"
  from lt have bounds: "lo \<le> ?mid" "?mid < hi" by simp_all
  consider (eq) "xs ! ?mid = key" | (below) "xs ! ?mid \<noteq> key" "xs ! ?mid < key"
    | (above) "xs ! ?mid \<noteq> key" "\<not> xs ! ?mid < key"
    by blast
  then show ?case
  proof cases
    case eq
    with lt show ?thesis by (simp add: BinarySearch_loop.simps [of xs lo hi] Let_def)
  next
    case below
    have "?mid < i"
    proof (rule ccontr)
      assume "\<not> ?mid < i"
      then have "i \<le> ?mid" by simp
      with "1.prems" bounds have "xs ! i \<le> xs ! ?mid"
        by (intro sorted_nth_mono) simp_all
      with below "1.prems" show False by simp
    qed
    then have "?mid + 1 \<le> i" by simp
    from "1.IH"(1) [OF lt refl below "1.prems"(1,2) this "1.prems"(4,5)] below lt
    show ?thesis by (simp add: BinarySearch_loop.simps [of xs lo hi] Let_def)
  next
    case above
    have "i < ?mid"
    proof (rule ccontr)
      assume "\<not> i < ?mid"
      then have "?mid \<le> i" by simp
      with "1.prems" bounds have "xs ! ?mid \<le> xs ! i"
        by (intro sorted_nth_mono) simp_all
      with above "1.prems" show False by simp
    qed
    moreover from bounds "1.prems" have "?mid \<le> length xs" by simp
    ultimately have "BinarySearch_loop xs lo ?mid key \<noteq> None"
      using "1.IH"(2) [OF lt refl above "1.prems"(1) _ "1.prems"(3) _ "1.prems"(5)] by simp
    with above lt show ?thesis by (simp add: BinarySearch_loop.simps [of xs lo hi] Let_def)
  qed
qed

lemma BinarySearch_found:
  assumes "sorted xs" and "key \<in> set xs"
  shows "\<exists>i < length xs. xs ! i = key \<and> BinarySearch xs (length xs) key = Some i"
proof -
  from assms(2) obtain j where j: "j < length xs" "xs ! j = key"
    by (auto simp: in_set_conv_nth)
  with assms(1) have "BinarySearch_loop xs 0 (length xs) key \<noteq> None"
    by (intro BinarySearch_loop_complete [where i = j]) simp_all
  then obtain i where i: "BinarySearch_loop xs 0 (length xs) key = Some i" by blast
  from BinarySearch_loop_sound [OF i] i show ?thesis by (simp add: BinarySearch_def)
qed

lemma BinarySearch_absent:
  assumes "key \<notin> set xs"
  shows "BinarySearch xs (length xs) key = None"
proof (rule ccontr)
  assume "BinarySearch xs (length xs) key \<noteq> None"
  then obtain i where "BinarySearch_loop xs 0 (length xs) key = Some i"
    by (auto simp: BinarySearch_def)
  from BinarySearch_loop_sound [OF this] assms show False by auto
qed

subsection \<open>Material lookup\<close>

text \<open>
  C9. Over a material array sorted by hash, with one hash per material, and after
  \<^verbatim>\<open>InitializeModelResource\<close> has created the default material, \<^verbatim>\<open>FindMeshMaterial\<close>
  returns a material whose hash is the one asked for when there is one, and the default
  material when there is none, in particular when the array is empty. The default
  material has the gray base color \<open>(0.6, 0.6, 0.6)\<close>, the Disney solid shader and an
  index of refraction of \<open>1.5\<close>.
\<close>

theorem FindMeshMaterial_lookup:
  assumes "sorted (materialHashes (data model))"
    and "length (materialHashes (data model)) = length (materials (data model))"
    and "defaultMaterial model = Some (CreateDefaultMaterial fresh)"
  shows "(h \<in> set (materialHashes (data model)) \<longrightarrow>
            (\<exists>i < length (materials (data model)). materialHashes (data model) ! i = h \<and>
                 FindMeshMaterial model h = Some (materials (data model) ! i))) \<and>
         (h \<notin> set (materialHashes (data model)) \<longrightarrow>
            FindMeshMaterial model h = Some (CreateDefaultMaterial fresh)) \<and>
         baseColor (CreateDefaultMaterial fresh) = float3_of 0.6 0.6 0.6 \<and>
         shader (CreateDefaultMaterial fresh) = eDisneySolid \<and>
         scalarAttributeValues (CreateDefaultMaterial fresh) eIor = Finite 1.5"
proof -
  let ?hs = "materialHashes (data model)"
  have found: "\<exists>i < length (materials (data model)). ?hs ! i = h \<and>
                 FindMeshMaterial model h = Some (materials (data model) ! i)"
    if "h \<in> set ?hs"
  proof -
    from BinarySearch_found [OF assms(1) that] obtain i
      where "i < length ?hs" "?hs ! i = h" "BinarySearch ?hs (length ?hs) h = Some i" by blast
    with assms(2) show ?thesis
      by (auto simp: FindMeshMaterial_def Let_def)
  qed
  have absent: "FindMeshMaterial model h = Some (CreateDefaultMaterial fresh)" if "h \<notin> set ?hs"
    using BinarySearch_absent [OF that] assms(2,3)
    by (simp add: FindMeshMaterial_def Let_def)
  from found absent show ?thesis
    by (simp add: CreateDefaultMaterial_def)
qed

theorem FindMeshMaterial_lookup_witness:
  "sorted (materialHashes (data sampleModel)) \<and>
   length (materialHashes (data sampleModel)) = length (materials (data sampleModel)) \<and>
   defaultMaterial sampleModel = Some (CreateDefaultMaterial (sampleMaterial 0)) \<and>
   20 \<in> set (materialHashes (data sampleModel)) \<and>
   FindMeshMaterial sampleModel 20 = Some (sampleMaterial 1) \<and>
   25 \<notin> set (materialHashes (data sampleModel)) \<and>
   FindMeshMaterial sampleModel 25 = Some (CreateDefaultMaterial (sampleMaterial 0)) \<and>
   baseColor (CreateDefaultMaterial (sampleMaterial 0)) = float3_of 0.6 0.6 0.6"
proof -
  have a: "sorted (materialHashes (data sampleModel))"
    by (simp add: sampleModel_def)
  have b: "length (materialHashes (data sampleModel)) = length (materials (data sampleModel))"
    by (simp add: sampleModel_def)
  have c: "defaultMaterial sampleModel = Some (CreateDefaultMaterial (sampleMaterial 0))"
    by (simp add: sampleModel_def)
  have d: "20 \<in> set (materialHashes (data sampleModel))"
          "25 \<notin> set (materialHashes (data sampleModel))"
    by (simp_all add: sampleModel_def)
  from FindMeshMaterial_lookup [OF a b c, of 20] d(1) obtain i where
    i: "i < length (materials (data sampleModel))" "materialHashes (data sampleModel) ! i = 20"
       "FindMeshMaterial sampleModel 20 = Some (materials (data sampleModel) ! i)"
    by blast
  from i(1) have "i = 0 \<or> i = 1 \<or> i = 2"
    by (auto simp: sampleModel_def)
  with i(2) have "i = 1"
    by (auto simp: sampleModel_def)
  with i(3) have e: "FindMeshMaterial sampleModel 20 = Some (sampleMaterial 1)"
    by (simp add: sampleModel_def)
  from FindMeshMaterial_lookup [OF a b c, of 25] d(2)
  have f: "FindMeshMaterial sampleModel 25 = Some (CreateDefaultMaterial (sampleMaterial 0))"
          "baseColor (CreateDefaultMaterial (sampleMaterial 0)) = float3_of 0.6 0.6 0.6"
    by simp_all
  from a b c d e f show ?thesis by (intro conjI)
qed

subsection \<open>Registering the meshes\<close>

lemma SetMeshVertexAttributes_keeps:
  "SetMeshVertexAttributes g model = Inr g' \<Longrightarrow>
     geometryType g' = geometryType g \<and> displacementFunction g' = displacementFunction g \<and>
     tessellationRate g' = tessellationRate g"
  by (auto simp: SetMeshVertexAttributes_def rtcSetSharedGeometryBuffer_def Let_def
      split: if_splits)

lemma CreateMeshGeometry_as_specified:
  assumes "CreateMeshGeometry gate eDE model meshData mat = Inr g"
  shows "mesh_geometry_as_specified gate eDE mat meshData g"
proof (cases "hasDisplacement gate eDE mat")
  case True
  with assms obtain g1 where
    g1: "SetMeshVertexAttributes (rtcNewGeometry RTC_GEOMETRY_TYPE_SUBDIVISION) model = Inr g1"
    by (auto simp: CreateMeshGeometry_def Let_def split: sum.splits)
  from SetMeshVertexAttributes_keeps [OF g1] have "geometryType g1 = RTC_GEOMETRY_TYPE_SUBDIVISION"
    by (simp add: rtcNewGeometry_def)
  with assms True g1 show ?thesis
    by (auto simp: CreateMeshGeometry_def Let_def mesh_geometry_as_specified_def
        hasDisplacement_def rtcSetSharedGeometryBuffer_def split: if_splits)
next
  case False
  let ?ty = "if indicesPerFace meshData = 3 then RTC_GEOMETRY_TYPE_TRIANGLE
             else RTC_GEOMETRY_TYPE_QUAD"
  from False assms obtain g1 where
    g1: "SetMeshVertexAttributes (rtcNewGeometry ?ty) model = Inr g1"
    by (auto simp: CreateMeshGeometry_def Let_def split: sum.splits)
  from SetMeshVertexAttributes_keeps [OF g1]
  have "geometryType g1 = ?ty" "displacementFunction g1 = None"
    by (simp_all add: rtcNewGeometry_def)
  with assms False g1 show ?thesis
    by (auto simp: CreateMeshGeometry_def Let_def mesh_geometry_as_specified_def
        hasDisplacement_def rtcSetSharedGeometryBuffer_def split: if_splits)
qed

lemma FindMeshMaterial_cong:
  "data m' = data m \<Longrightarrow> defaultMaterial m' = defaultMaterial m
   \<Longrightarrow> FindMeshMaterial m' h = FindMeshMaterial m h"
  by (simp add: FindMeshMaterial_def split: option.splits)

lemma InitializeMesh_result:
  assumes "InitializeMesh gate eDE eAT model sc geomID meshData = Inr (model', sc')"
  shows "data model' = data model \<and> defaultMaterial model' = defaultMaterial model \<and>
         geometry model' = geometry model \<and>
         (\<exists>g mat. rtcGeometries model' = rtcGeometries model @ [g] \<and>
                  sc' = sc @ [(geomID, g)] \<and>
                  FindMeshMaterial model (materialHash meshData) = Some mat \<and>
                  mesh_geometry_as_specified gate eDE mat meshData g)"
proof -
  from assms obtain mat g0 where
    mat: "FindMeshMaterial model (materialHash meshData) = Some mat" and
    g0: "CreateMeshGeometry gate eDE model meshData mat = Inr g0"
    by (auto simp: InitializeMesh_def split: option.splits sum.splits)
  from CreateMeshGeometry_as_specified [OF g0]
  have "mesh_geometry_as_specified gate eDE mat meshData g0" .
  then have spec: "mesh_geometry_as_specified gate eDE mat meshData
                     (g0\<lparr>geometryUserData := a, committed := b\<rparr>)"
            "mesh_geometry_as_specified gate eDE mat meshData
                     (g0\<lparr>intersectFilterFunction := c, geometryUserData := a, committed := b\<rparr>)"
    for a b c
    by (simp_all add: mesh_geometry_as_specified_def)
  from assms mat g0 spec show ?thesis
    by (auto simp: InitializeMesh_def Let_def)
qed

lemma InitializeMeshes_loop_result:
  "InitializeMeshes_loop gate eDE eAT model sc offset scan ms = Inr (model', sc') \<Longrightarrow>
     data model' = data model \<and> defaultMaterial model' = defaultMaterial model \<and>
     (\<exists>gs. rtcGeometries model' = rtcGeometries model @ gs \<and>
           length gs = length ms \<and>
           sc' = sc @ zip (map (\<lambda>i. offset + scan + word_of_nat i) [0 ..< length ms]) gs \<and>
           (\<forall>i < length ms. \<exists>mat.
               FindMeshMaterial model (materialHash (ms ! i)) = Some mat \<and>
               mesh_geometry_as_specified gate eDE mat (ms ! i) (gs ! i)))"
proof (induction ms arbitrary: model sc scan)
  case Nil
  then show ?case by simp
next
  case (Cons m ms)
  from Cons.prems obtain model1 sc1 where
    step: "InitializeMesh gate eDE eAT model sc (offset + scan) m = Inr (model1, sc1)" and
    rest: "InitializeMeshes_loop gate eDE eAT model1 sc1 offset (scan + 1) ms = Inr (model', sc')"
    by (auto split: sum.splits)
  from InitializeMesh_result [OF step] obtain g mat where
    s1: "data model1 = data model" "defaultMaterial model1 = defaultMaterial model"
        "rtcGeometries model1 = rtcGeometries model @ [g]"
        "sc1 = sc @ [(offset + scan, g)]"
        "FindMeshMaterial model (materialHash m) = Some mat"
        "mesh_geometry_as_specified gate eDE mat m g"
    by blast
  from Cons.IH [OF rest] obtain gs where
    s2: "data model' = data model1" "defaultMaterial model' = defaultMaterial model1"
        "rtcGeometries model' = rtcGeometries model1 @ gs" "length gs = length ms"
        "sc' = sc1 @ zip (map (\<lambda>i. offset + (scan + 1) + word_of_nat i) [0 ..< length ms]) gs"
        "\<forall>i < length ms. \<exists>mat.
               FindMeshMaterial model1 (materialHash (ms ! i)) = Some mat \<and>
               mesh_geometry_as_specified gate eDE mat (ms ! i) (gs ! i)"
    by blast
  have find: "FindMeshMaterial model1 h = FindMeshMaterial model h" for h
    using s1(1,2) by (rule FindMeshMaterial_cong)
  have ids: "map (\<lambda>i. offset + scan + word_of_nat i) [0 ..< length (m # ms)]
             = (offset + scan) # map (\<lambda>i. offset + (scan + 1) + word_of_nat i) [0 ..< length ms]"
    by (simp add: upt_conv_Cons map_Suc_upt [symmetric] add.assoc del: upt_Suc)
  have each: "\<forall>i < length (m # ms). \<exists>mat.
               FindMeshMaterial model (materialHash ((m # ms) ! i)) = Some mat \<and>
               mesh_geometry_as_specified gate eDE mat ((m # ms) ! i) ((g # gs) ! i)"
  proof (intro allI impI)
    fix i assume "i < length (m # ms)"
    then show "\<exists>mat. FindMeshMaterial model (materialHash ((m # ms) ! i)) = Some mat \<and>
               mesh_geometry_as_specified gate eDE mat ((m # ms) ! i) ((g # gs) ! i)"
      using s1(5,6) s2(6) find by (cases i) auto
  qed
  have "rtcGeometries model' = rtcGeometries model @ (g # gs)"
    using s1(3) s2(3) by simp
  moreover have "length (g # gs) = length (m # ms)" using s2(4) by simp
  moreover have "sc' = sc @ zip (map (\<lambda>i. offset + scan + word_of_nat i) [0 ..< length (m # ms)]) (g # gs)"
    unfolding ids using s1(4) s2(5) by simp
  ultimately show ?case using s1(1,2) s2(1,2) each by metis
qed


text \<open>
  C8. When \<^verbatim>\<open>InitializeMeshes\<close> returns, it has appended one geometry per mesh to the
  model and attached it to the scene under the id \<^verbatim>\<open>offset + scan\<close>. The geometry of a
  mesh is a subdivision geometry, with tessellation rate and displacement callback, if
  and only if the material found for the mesh has the displacement flag and the gate is
  on; otherwise it is a triangle geometry when \<^verbatim>\<open>indicesPerFace\<close> is 3 and a quad
  geometry when it is 4.
\<close>

theorem InitializeMeshes_geometry_types:
  assumes "InitializeMeshes gate eDE eAT model offset sc = Inr (offset', model', sc')"
  shows "\<exists>gs. rtcGeometries model' = rtcGeometries model @ gs \<and>
              length gs = unat (word_of_nat (length (meshes (data model))) :: uint32) \<and>
              sc' = sc @ zip (map (\<lambda>i. offset + word_of_nat i) [0 ..< length gs]) gs \<and>
              (\<forall>i < length gs. \<exists>mat.
                  FindMeshMaterial model (materialHash (meshes (data model) ! i)) = Some mat \<and>
                  mesh_geometry_as_specified gate eDE mat (meshes (data model) ! i) (gs ! i))"
proof -
  let ?n = "unat (word_of_nat (length (meshes (data model))) :: uint32)"
  let ?ms = "take ?n (meshes (data model))"
  have n: "?n \<le> length (meshes (data model))"
    by (simp add: unat_of_nat)
  then have len: "length ?ms = ?n" by simp
  from assms have
    "InitializeMeshes_loop gate eDE eAT model sc offset 0 ?ms = Inr (model', sc')"
    by (auto simp: InitializeMeshes_def Let_def split: if_splits sum.splits)
  from InitializeMeshes_loop_result [OF this] obtain gs where
    gs: "rtcGeometries model' = rtcGeometries model @ gs" "length gs = length ?ms"
        "sc' = sc @ zip (map (\<lambda>i. offset + 0 + word_of_nat i) [0 ..< length ?ms]) gs"
        "\<forall>i < length ?ms. \<exists>mat.
               FindMeshMaterial model (materialHash (?ms ! i)) = Some mat \<and>
               mesh_geometry_as_specified gate eDE mat (?ms ! i) (gs ! i)"
    by blast
  from gs(4) len have "\<forall>i < ?n. \<exists>mat.
               FindMeshMaterial model (materialHash (meshes (data model) ! i)) = Some mat \<and>
               mesh_geometry_as_specified gate eDE mat (meshes (data model) ! i) (gs ! i)"
    by simp
  with gs(1,2,3) len show ?thesis by simp
qed

theorem InitializeMeshes_geometry_types_witness:
  "\<exists>offset' model' sc'.
     InitializeMeshes 1 1 2 sampleModel 0 [] = Inr (offset', model', sc') \<and>
     map geometryType (rtcGeometries model')
       = [RTC_GEOMETRY_TYPE_SUBDIVISION, RTC_GEOMETRY_TYPE_TRIANGLE, RTC_GEOMETRY_TYPE_QUAD] \<and>
     (\<exists>gs. rtcGeometries model' = rtcGeometries sampleModel @ gs \<and>
           length gs = 3 \<and>
           (\<exists>mat. FindMeshMaterial sampleModel (materialHash (meshes (data sampleModel) ! 0))
                    = Some mat \<and>
                  mesh_geometry_as_specified 1 1 mat (meshes (data sampleModel) ! 0) (gs ! 0)))"
proof -
  have "\<exists>r. InitializeMeshes 1 1 2 sampleModel 0 [] = Inr r \<and>
            map geometryType (rtcGeometries (fst (snd r)))
              = [RTC_GEOMETRY_TYPE_SUBDIVISION, RTC_GEOMETRY_TYPE_TRIANGLE, RTC_GEOMETRY_TYPE_QUAD]"
    by (simp add: InitializeMeshes_def InitializeMesh_def CreateMeshGeometry_def
        SetMeshVertexAttributes_def FindMeshMaterial_def BinarySearch_def
        BinarySearch_loop.simps hasDisplacement_def rtcNewGeometry_def
        rtcSetSharedGeometryBuffer_def aligned_def kGeometryDataAlignment_def
        sampleModel_def sampleMesh_def sampleMaterial_def sampleGeometry_def
        CreateDefaultMaterial_def Let_def)
  then obtain offset' model' sc' where
    run: "InitializeMeshes 1 1 2 sampleModel 0 [] = Inr (offset', model', sc')" and
    types: "map geometryType (rtcGeometries model')
              = [RTC_GEOMETRY_TYPE_SUBDIVISION, RTC_GEOMETRY_TYPE_TRIANGLE, RTC_GEOMETRY_TYPE_QUAD]"
    by auto
  have three: "unat (word_of_nat (length (meshes (data sampleModel))) :: uint32) = 3"
    by (simp add: sampleModel_def)
  from InitializeMeshes_geometry_types [OF run] obtain gs where
    gs: "rtcGeometries model' = rtcGeometries sampleModel @ gs" "length gs = 3"
        "\<forall>i < length gs. \<exists>mat.
            FindMeshMaterial sampleModel (materialHash (meshes (data sampleModel) ! i)) = Some mat \<and>
            mesh_geometry_as_specified 1 1 mat (meshes (data sampleModel) ! i) (gs ! i)"
    unfolding three by blast
  from gs(2,3) have "\<exists>mat. FindMeshMaterial sampleModel (materialHash (meshes (data sampleModel) ! 0))
                    = Some mat \<and>
                  mesh_geometry_as_specified 1 1 mat (meshes (data sampleModel) ! 0) (gs ! 0)"
    by simp
  then obtain mat where
    mat: "FindMeshMaterial sampleModel (materialHash (meshes (data sampleModel) ! 0)) = Some mat"
         "mesh_geometry_as_specified 1 1 mat (meshes (data sampleModel) ! 0) (gs ! 0)"
    by blast
  from run types gs(1,2) mat show ?thesis by (intro exI conjI)
qed

text \<open>
  The registration returns for every well-formed model: aligned buffers, a default
  material, and no mesh with zero indices per face.
\<close>

lemma SetMeshVertexAttributes_returns:
  assumes "geometry_well_formed (geometry model)"
  shows "\<exists>g'. SetMeshVertexAttributes g model = Inr g'"
  using assms
  by (auto simp: SetMeshVertexAttributes_def geometry_well_formed_def Let_def split: if_splits)

lemma CreateMeshGeometry_returns:
  assumes "geometry_well_formed (geometry model)" and "indicesPerFace meshData \<noteq> 0"
  shows "\<exists>g. CreateMeshGeometry gate eDE model meshData mat = Inr g"
proof -
  obtain g1 where
    "SetMeshVertexAttributes (rtcNewGeometry RTC_GEOMETRY_TYPE_SUBDIVISION) model = Inr g1"
    using SetMeshVertexAttributes_returns [OF assms(1)] by blast
  moreover obtain g2 where
    "SetMeshVertexAttributes (rtcNewGeometry RTC_GEOMETRY_TYPE_TRIANGLE) model = Inr g2"
    using SetMeshVertexAttributes_returns [OF assms(1)] by blast
  moreover obtain g3 where
    "SetMeshVertexAttributes (rtcNewGeometry RTC_GEOMETRY_TYPE_QUAD) model = Inr g3"
    using SetMeshVertexAttributes_returns [OF assms(1)] by blast
  ultimately show ?thesis using assms(2)
    by (simp add: CreateMeshGeometry_def Let_def)
qed

lemma FindMeshMaterial_returns:
  assumes "defaultMaterial model \<noteq> None"
  shows "\<exists>mat. FindMeshMaterial model h = Some mat"
  using assms by (auto simp: FindMeshMaterial_def Let_def split: option.splits)

lemma InitializeMesh_returns:
  assumes "geometry_well_formed (geometry model)" and "defaultMaterial model \<noteq> None"
    and "indicesPerFace meshData \<noteq> 0"
  shows "\<exists>r. InitializeMesh gate eDE eAT model sc geomID meshData = Inr r"
proof -
  from FindMeshMaterial_returns [OF assms(2)] obtain mat where
    "FindMeshMaterial model (materialHash meshData) = Some mat" by blast
  moreover from CreateMeshGeometry_returns [OF assms(1,3)] obtain g where
    "CreateMeshGeometry gate eDE model meshData mat = Inr g" by blast
  ultimately show ?thesis
    by (simp add: InitializeMesh_def Let_def)
qed

lemma InitializeMeshes_loop_returns:
  "geometry_well_formed (geometry model) \<Longrightarrow> defaultMaterial model \<noteq> None \<Longrightarrow>
   list_all (\<lambda>m. indicesPerFace m \<noteq> 0) ms \<Longrightarrow>
   \<exists>r. InitializeMeshes_loop gate eDE eAT model sc offset scan ms = Inr r"
proof (induction ms arbitrary: model sc scan)
  case Nil
  then show ?case by simp
next
  case (Cons m ms)
  from Cons.prems have "indicesPerFace m \<noteq> 0" by simp
  from InitializeMesh_returns [OF Cons.prems(1,2) this] obtain model1 sc1 where
    step: "InitializeMesh gate eDE eAT model sc (offset + scan) m = Inr (model1, sc1)"
    by (metis surj_pair)
  from InitializeMesh_result [OF step] Cons.prems
  have "geometry_well_formed (geometry model1)" "defaultMaterial model1 \<noteq> None"
    by simp_all
  from Cons.IH [OF this] Cons.prems(3) step show ?case by simp
qed

lemma InitializeMeshes_returns:
  assumes "geometry_well_formed (geometry model)" and "defaultMaterial model \<noteq> None"
    and "list_all (\<lambda>m. indicesPerFace m \<noteq> 0) (meshes (data model))"
  shows "\<exists>r. InitializeMeshes gate eDE eAT model offset sc = Inr r"
proof -
  let ?ms = "take (unat (word_of_nat (length (meshes (data model))) :: uint32)) (meshes (data model))"
  from assms(3) have "list_all (\<lambda>m. indicesPerFace m \<noteq> 0) ?ms"
    by (auto simp: list_all_iff dest: in_set_takeD)
  from InitializeMeshes_loop_returns [OF assms(1,2) this] obtain r where
    "InitializeMeshes_loop gate eDE eAT model sc offset 0 ?ms = Inr r" by blast
  with assms(1) show ?thesis
    by (cases r) (simp add: InitializeMeshes_def Let_def geometry_well_formed_def)
qed

text \<open>
  With the value 0 that the source gives the macro \<^verbatim>\<open>EnableDisplacement_\<close>, no mesh
  becomes a subdivision geometry.
\<close>

lemma InitializeMeshes_source_build:
  assumes "InitializeMeshes EnableDisplacement eDE eAT model offset sc = Inr (offset', model', sc')"
  shows "list_all (\<lambda>g. geometryType g \<noteq> RTC_GEOMETRY_TYPE_SUBDIVISION)
           (drop (length (rtcGeometries model)) (rtcGeometries model'))"
proof -
  let ?ms = "take (unat (word_of_nat (length (meshes (data model))) :: uint32)) (meshes (data model))"
  from assms have
    "InitializeMeshes_loop EnableDisplacement eDE eAT model sc offset 0 ?ms = Inr (model', sc')"
    by (auto simp: InitializeMeshes_def Let_def split: if_splits sum.splits)
  from InitializeMeshes_loop_result [OF this] obtain gs where
    gs: "rtcGeometries model' = rtcGeometries model @ gs" "length gs = length ?ms"
        "\<forall>i < length ?ms. \<exists>mat.
               FindMeshMaterial model (materialHash (?ms ! i)) = Some mat \<and>
               mesh_geometry_as_specified EnableDisplacement eDE mat (?ms ! i) (gs ! i)"
    by blast
  from gs(2,3) have "\<forall>i < length gs. geometryType (gs ! i) \<noteq> RTC_GEOMETRY_TYPE_SUBDIVISION"
    by (auto simp: mesh_geometry_as_specified_def EnableDisplacement_def)
  then have "list_all (\<lambda>g. geometryType g \<noteq> RTC_GEOMETRY_TYPE_SUBDIVISION) gs"
    by (simp add: list_all_length)
  with gs(1) show ?thesis by simp
qed

section \<open>Properties of the build context\<close>

lemma temporary_path_differs: "temporary_path path \<noteq> path"
  by (simp add: temporary_path_def)

lemma WriteWholeFile_cases:
  "WriteWholeFile io fs filepath bytes fileSize =
     (if io = IoSuccess
      then (Inr (),
            rename_file (fs(temporary_path filepath \<mapsto> take (unat fileSize) bytes))
              (temporary_path filepath) filepath)
      else if io = CreateFails then (Inl (Error ''Failed to open file''), fs)
      else if io = RenameFails
      then (Inl (Error ''Failed to rename file''), fs(temporary_path filepath := None))
      else (Inl (Error ''Failed to write file''), fs(temporary_path filepath := None)))"
  by (cases io) (simp_all add: WriteWholeFile_def Let_def)

lemma rename_temporary:
  "rename_file (fs(temporary_path p \<mapsto> content)) (temporary_path p) p
   = (fs(temporary_path p := None))(p \<mapsto> content)"
  using temporary_path_differs [of p]
  by (auto simp: rename_file_def fun_eq_iff)

lemma ucast_small:
  assumes "(dataSize :: uint64) < 2 ^ 32"
  shows "unat (ucast dataSize :: uint32) = unat dataSize"
proof -
  from assms have "unat dataSize < 2 ^ 32"
    by (simp add: word_less_nat_alt)
  then show ?thesis
    by (simp add: unsigned_ucast_eq take_bit_eq_mod)
qed

text \<open>
  C5 as stated does not hold for every call: \<^verbatim>\<open>CreateOutput\<close> takes a 64-bit size and
  passes \<^verbatim>\<open>(uint32)dataSize\<close> on. For 4294967299 bytes of data the call succeeds, adds the
  output record, and the file at the target path holds the first three bytes only.
\<close>

theorem CreateOutput_truncation_counterexample:
  "unat (4294967299 :: uint64) = length longData \<and>
   CreateOutput IoSuccess samplePath sampleBuild noFiles ''Scene'' 1 ''box'' longData 4294967299
     = (Inr (),
        sampleBuild\<lparr>outputs := [\<lparr>output_source = ContentId ''Scene'' ''box'',
                                  output_id = AssetId ''Scene'' ''box'',
                                  output_version = 1\<rparr>]\<rparr>,
        (noFiles(temporary_path ''Scene/box.bin'' := None))(''Scene/box.bin'' \<mapsto> [1, 2, 3])) \<and>
   samplePath (AssetId ''Scene'' ''box'') 1 = ''Scene/box.bin'' \<and>
   [1, 2, 3] \<noteq> longData"
proof -
  have len: "length longData = 4294967299"
    by (simp add: longData_def)
  have cut: "take (unat (ucast (4294967299 :: uint64) :: uint32)) longData = [1, 2, 3]"
    "take 3 longData = [1, 2, 3]"
    by (simp_all add: longData_def)
  have path: "samplePath (AssetId ''Scene'' ''box'') 1 = ''Scene/box.bin''"
    by (simp add: samplePath_def)
  have differ: "[1, 2, 3] \<noteq> longData"
  proof
    assume "[1, 2, 3] = longData"
    then have "length [1, 2, 3 :: uint8] = length longData" by (simp only:)
    with len show False by simp
  qed
  have "CreateOutput IoSuccess samplePath sampleBuild noFiles ''Scene'' 1 ''box'' longData 4294967299
     = (Inr (),
        sampleBuild\<lparr>outputs := [\<lparr>output_source = ContentId ''Scene'' ''box'',
                                  output_id = AssetId ''Scene'' ''box'',
                                  output_version = 1\<rparr>]\<rparr>,
        (noFiles(temporary_path ''Scene/box.bin'' := None))(''Scene/box.bin'' \<mapsto> [1, 2, 3]))"
    unfolding CreateOutput_def Let_def WriteWholeFile_cases
    by (simp add: cut path rename_temporary sampleBuild_def)
  with len path differ show ?thesis by simp
qed

text \<open>
  C5, amended. For a call of \<^verbatim>\<open>CreateOutput\<close> with a size below \<^verbatim>\<open>2^32\<close>: either the
  call succeeds, the file system is the one in which the temporary file with all
  \<^verbatim>\<open>dataSize\<close> bytes of the data has been renamed to the target path, so the complete
  file is at the target path, and the output record has been added to the context; or
  the call fails, the file system is as before except that the temporary file is gone,
  the target path is as it was, so no partially written file is there, and the context
  is unchanged. The result of the call is the result of \<^verbatim>\<open>File::WriteWholeFile\<close>.
\<close>

theorem CreateOutput_atomic:
  assumes "dataSize < 2 ^ 32"
  shows "(case CreateOutput io assetFilePath ctx fs type version name bytes dataSize of
      (Inr ok, ctx', fs') \<Rightarrow>
        io = IoSuccess \<and>
        fs' = rename_file
                (fs(temporary_path (assetFilePath (AssetId type name) version)
                      \<mapsto> take (unat dataSize) bytes))
                (temporary_path (assetFilePath (AssetId type name) version))
                (assetFilePath (AssetId type name) version) \<and>
        fs' (assetFilePath (AssetId type name) version) = Some (take (unat dataSize) bytes) \<and>
        ctx' = ctx\<lparr>outputs := outputs ctx @
                 [\<lparr>output_source = ContentId type name, output_id = AssetId type name,
                   output_version = version\<rparr>]\<rparr>
    | (Inl e, ctx', fs') \<Rightarrow>
        io \<noteq> IoSuccess \<and>
        (fs' = fs \<or>
         fs' = fs(temporary_path (assetFilePath (AssetId type name) version) := None)) \<and>
        fs' (assetFilePath (AssetId type name) version)
          = fs (assetFilePath (AssetId type name) version) \<and>
        ctx' = ctx) \<and>
     fst (CreateOutput io assetFilePath ctx fs type version name bytes dataSize)
       = fst (WriteWholeFile io fs (assetFilePath (AssetId type name) version) bytes
                (ucast dataSize))"
proof -
  let ?p = "assetFilePath (AssetId type name) version"
  note size = ucast_small [OF assms]
  have target: "rename_file (fs(temporary_path ?p \<mapsto> c)) (temporary_path ?p) ?p ?p = Some c"
    for c
    by (simp add: rename_temporary)
  have kept: "(fs(temporary_path ?p := None)) ?p = fs ?p"
    using temporary_path_differs [of ?p] by simp
  have other: "?p \<noteq> temporary_path ?p"
    using temporary_path_differs [of ?p] by (rule not_sym)
  show ?thesis
    unfolding CreateOutput_def Let_def WriteWholeFile_cases
    by (simp add: size target kept other)
qed

theorem CreateOutput_atomic_witness:
  "(3 :: uint64) < 2 ^ 32 \<and>
   fst (CreateOutput IoSuccess samplePath sampleBuild noFiles ''Scene'' 1 ''box'' [1, 2, 3] 3)
     = Inr () \<and>
   snd (snd (CreateOutput IoSuccess samplePath sampleBuild noFiles ''Scene'' 1 ''box'' [1, 2, 3] 3))
     (samplePath (AssetId ''Scene'' ''box'') 1) = Some [1, 2, 3] \<and>
   length (outputs (fst (snd
     (CreateOutput IoSuccess samplePath sampleBuild noFiles ''Scene'' 1 ''box'' [1, 2, 3] 3)))) = 1 \<and>
   fst (CreateOutput (WriteFailsAfter 2) samplePath sampleBuild noFiles ''Scene'' 1 ''box''
          [1, 2, 3] 3)
     = Inl (Error ''Failed to write file'') \<and>
   snd (snd (CreateOutput (WriteFailsAfter 2) samplePath sampleBuild noFiles ''Scene'' 1 ''box''
               [1, 2, 3] 3))
     (samplePath (AssetId ''Scene'' ''box'') 1) = None \<and>
   fst (snd (CreateOutput (WriteFailsAfter 2) samplePath sampleBuild noFiles ''Scene'' 1 ''box''
               [1, 2, 3] 3))
     = sampleBuild"
proof -
  let ?ok = "CreateOutput IoSuccess samplePath sampleBuild noFiles ''Scene'' 1 ''box'' [1, 2, 3] 3"
  let ?bad = "CreateOutput (WriteFailsAfter 2) samplePath sampleBuild noFiles ''Scene'' 1 ''box''
                [1, 2, 3] 3"
  have small: "(3 :: uint64) < 2 ^ 32" by simp
  have a: "fst ?ok = Inr ()"
    by (simp add: CreateOutput_def WriteWholeFile_def Let_def)
  have b: "fst ?bad = Inl (Error ''Failed to write file'')"
    by (simp add: CreateOutput_def WriteWholeFile_def Let_def)
  have size: "take (unat (3 :: uint64)) [1, 2, 3 :: uint8] = [1, 2, 3]"
    by simp
  have none: "noFiles (samplePath (AssetId ''Scene'' ''box'') 1) = None"
    by (simp add: noFiles_def)
  obtain c1 f1 where ok: "?ok = (Inr (), c1, f1)"
    using a by (cases ?ok) auto
  obtain c2 f2 where bad: "?bad = (Inl (Error ''Failed to write file''), c2, f2)"
    using b by (cases ?bad) auto
  from CreateOutput_atomic [OF small, where io = IoSuccess and assetFilePath = samplePath
      and ctx = sampleBuild and fs = noFiles and type = "''Scene''" and version = 1
      and name = "''box''" and bytes = "[1, 2, 3]"]
  have c: "f1 (samplePath (AssetId ''Scene'' ''box'') 1) = Some [1, 2, 3]"
          "length (outputs c1) = 1"
    unfolding ok by (simp_all add: size sampleBuild_def rename_temporary)
  from CreateOutput_atomic [OF small, where io = "WriteFailsAfter 2" and assetFilePath = samplePath
      and ctx = sampleBuild and fs = noFiles and type = "''Scene''" and version = 1
      and name = "''box''" and bytes = "[1, 2, 3]"]
  have d: "f2 (samplePath (AssetId ''Scene'' ''box'') 1) = None" "c2 = sampleBuild"
    unfolding bad by (simp_all add: none)
  from small a b c d show ?thesis
    unfolding ok bad by simp
qed

section \<open>Properties of the scene baker\<close>

subsection \<open>One aligned buffer\<close>

declare padding_loop.simps [simp del]

lemma padding_loop_replicate:
  "padding_loop writer scan alignedSize
     = writer\<lparr>pointerData := pointerData writer @ replicate (alignedSize - scan) 0\<rparr>"
proof (induction writer scan alignedSize rule: padding_loop.induct)
  case (1 writer scan alignedSize)
  show ?case
  proof (cases "scan < alignedSize")
    case True
    then have "alignedSize - scan = Suc (alignedSize - (scan + 1))" by simp
    with True "1.IH" show ?thesis
      by (simp add: padding_loop.simps [of writer scan] SerializerWritePointerData_def
          replicate_app_Cons_same)
  next
    case False
    then show ?thesis by (simp add: padding_loop.simps [of writer scan])
  qed
qed

lemma and_not_15:
  fixes w :: uint32
  shows "w AND NOT 15 = push_bit 4 (drop_bit 4 w)"
proof -
  have "(15 :: uint32) = mask 4" by (simp add: mask_eq_exp_minus_1)
  moreover have "w AND NOT (mask 4) = push_bit 4 (drop_bit 4 w)"
    by (rule bit_eqI) (auto simp: bit_simps)
  ultimately show ?thesis by simp
qed

lemma aligned_size_16:
  fixes w :: uint32
  shows "unat (w AND NOT 15) = unat w - unat w mod 16"
proof -
  have "unat w < 2 ^ 32" using unsigned_less [of w] by simp
  moreover have "unat (push_bit 4 (drop_bit 4 w)) = (unat w div 16 * 16) mod 2 ^ 32"
    by (simp add: push_bit_eq_mult drop_bit_eq_div unat_word_ariths unat_div mod_mult_left_eq)
  ultimately show ?thesis
    unfolding and_not_15 by (simp add: minus_mod_eq_div_mult [symmetric])
qed

lemma padding_count:
  fixes n :: nat
  shows "(n + 15) - (n + 15) mod 16 - n = (16 - n mod 16) mod 16"
proof -
  define r where "r = n mod 16"
  define m where "m = (n + 15) mod 16"
  have r: "r < 16" by (simp add: r_def)
  have m: "m = (r + 15) mod 16"
    unfolding m_def r_def by (rule mod_add_left_eq [symmetric])
  show ?thesis
  proof (cases "r = 0")
    case True
    with m have "m = 15" by simp
    with True show ?thesis
      unfolding m_def [symmetric] r_def [symmetric] by simp
  next
    case False
    then have "r + 15 = (r - 1) + 16" by simp
    then have "(r + 15) mod 16 = (r - 1) mod 16" by (simp only: mod_add_self2)
    with r m have "m = r - 1" by simp
    moreover from r False have "(16 - r) mod 16 = 16 - r" by simp
    ultimately show ?thesis
      unfolding m_def [symmetric] r_def [symmetric] using r False by simp
  qed
qed

lemma unat_DataSize:
  assumes "length buf \<le> 2 ^ 32 - 16"
  shows "unat (DataSize buf) = length buf"
proof -
  from assms have "length buf < 2 ^ 32" by simp
  then have "length buf mod 2 ^ 32 = length buf" by (rule mod_less)
  then show ?thesis by (simp add: DataSize_def unat_of_nat)
qed

lemma unat_DataSize_plus:
  assumes "length buf \<le> 2 ^ 32 - 16"
  shows "unat (DataSize buf + 15) = length buf + 15"
proof -
  from assms have "length buf + 15 < 2 ^ 32" by simp
  then have "(length buf + 15) mod 2 ^ 32 = length buf + 15" by (rule mod_less)
  with unat_DataSize [OF assms] show ?thesis by (simp add: unat_word_ariths)
qed

text \<open>
  What \<^verbatim>\<open>SerializeBufferAligned\<close> does to any writer: one pointer slot, the buffer at the
  end of the pointee bytes, and after it the zero bytes up to the aligned size.
\<close>

lemma SerializeBufferAligned_general:
  "SerializeBufferAligned writer buf n a
   = writer\<lparr>rawData := rawData writer @ replicate 8 0,
            pointerData := pointerData writer @ take (unat n) buf
               @ replicate (unat ((n + a - 1) AND NOT (a - 1)) - unat n) 0,
            pointers := pointers writer @
               [\<lparr>pointerOffset = length (rawData writer),
                 pointerDataOffset = length (pointerData writer)\<rparr>]\<rparr>"
  by (simp add: SerializeBufferAligned_def Let_def padding_loop_replicate
      SerializerWritePointerData_def SerializerWritePointerOffsetX64_def SerializerWrite_def)


lemma SerializeBufferAligned_effect:
  assumes "length buf \<le> 2 ^ 32 - 16"
  shows "SerializeBufferAligned writer buf (DataSize buf) kSceneDataAlignment
         = writer\<lparr>rawData := rawData writer @ replicate 8 0,
                  pointerData := pointerData writer @ padded buf,
                  pointers := pointers writer @
                    [\<lparr>pointerOffset = length (rawData writer),
                      pointerDataOffset = length (pointerData writer)\<rparr>]\<rparr>"
proof -
  let ?n = "length buf"
  note size = unat_DataSize [OF assms]
  have k: "DataSize buf + kSceneDataAlignment - 1 = DataSize buf + 15"
          "kSceneDataAlignment - 1 = 15"
    by (simp_all add: kSceneDataAlignment_def)
  from aligned_size_16 [of "DataSize buf + 15"] unat_DataSize_plus [OF assms]
  have "unat ((DataSize buf + 15) AND NOT 15) = (?n + 15) - (?n + 15) mod 16"
    by (simp only:)
  then have "unat ((DataSize buf + 15) AND NOT 15) - ?n = (16 - ?n mod 16) mod 16"
    by (simp only: padding_count)
  then have pad: "padding_loop w ?n (unat ((DataSize buf + 15) AND NOT 15))
                  = w\<lparr>pointerData := pointerData w @ replicate ((16 - ?n mod 16) mod 16) 0\<rparr>"
    for w
    by (simp only: padding_loop_replicate)
  have "SerializeBufferAligned writer buf (DataSize buf) kSceneDataAlignment
        = (SerializerWritePointerData (SerializerWritePointerOffsetX64 writer) buf (DataSize buf))
            \<lparr>pointerData :=
               pointerData (SerializerWritePointerData (SerializerWritePointerOffsetX64 writer)
                              buf (DataSize buf))
               @ replicate ((16 - ?n mod 16) mod 16) 0\<rparr>"
    unfolding SerializeBufferAligned_def Let_def k size pad ..
  also have "\<dots> = writer\<lparr>rawData := rawData writer @ replicate 8 0,
                  pointerData := pointerData writer @ padded buf,
                  pointers := pointers writer @
                    [\<lparr>pointerOffset = length (rawData writer),
                      pointerDataOffset = length (pointerData writer)\<rparr>]\<rparr>"
    by (simp add: padded_def SerializerWritePointerData_def SerializerWritePointerOffsetX64_def
        SerializerWrite_def size)
  finally show ?thesis .
qed

subsection \<open>The geometry blob\<close>

lemma SerializeIndices_append:
  "SerializeIndices writer (as @ bs) = SerializeIndices (SerializeIndices writer as) bs"
  by (induction as arbitrary: writer) simp_all

lemma SerializeGeometry_as_list:
  "SerializeGeometry writer sceneData = SerializeIndices writer (scene_buffers sceneData)"
  by (simp add: SerializeGeometry_def scene_buffers_def SerializeIndices_append Let_def)

lemma SerializeIndices_effect:
  "list_all (\<lambda>buf. length buf \<le> 2 ^ 32 - 16) bufs \<Longrightarrow>
   SerializeIndices writer bufs
     = writer\<lparr>rawData := rawData writer @ replicate (8 * length bufs) 0,
              pointerData := pointerData writer @ concat (map padded bufs),
              pointers := pointers writer @
                expected_pointers (length (rawData writer)) (length (pointerData writer)) bufs\<rparr>"
proof (induction bufs arbitrary: writer)
  case Nil
  then show ?case by simp
next
  case (Cons buf bufs)
  from Cons.prems have one: "length buf \<le> 2 ^ 32 - 16"
    and rest: "list_all (\<lambda>buf. length buf \<le> 2 ^ 32 - 16) bufs"
    by simp_all
  have "replicate 8 (0 :: uint8) @ replicate (8 * length bufs) 0
        = replicate (8 * length (buf # bufs)) 0"
    by (simp add: replicate_add [symmetric])
  then show ?case
    by (simp add: SerializeBufferAligned_effect [OF one] Cons.IH [OF rest])
qed

lemma padded_length_dvd:
  fixes n :: nat
  shows "16 dvd n + (16 - n mod 16) mod 16"
proof -
  define r where "r = n mod 16"
  define q where "q = n div 16"
  have n: "n = 16 * q + r" by (simp add: r_def q_def)
  have r: "r < 16" by (simp add: r_def)
  show ?thesis
  proof (cases "r = 0")
    case True
    then show ?thesis unfolding r_def [symmetric] using n by simp
  next
    case False
    with r have "(16 - r) mod 16 = 16 - r" by simp
    moreover from r n have "n + (16 - r) = 16 * (q + 1)" by simp
    ultimately show ?thesis unfolding r_def [symmetric] by simp
  qed
qed

lemma length_padded: "16 dvd length (padded buf)"
  unfolding padded_def using padded_length_dvd [of "length buf"] by simp

lemma length_expected_pointers: "length (expected_pointers site off bufs) = length bufs"
  by (induction bufs arbitrary: site off) simp_all

lemma expected_pointers_aligned:
  "16 dvd off \<Longrightarrow>
   list_all (\<lambda>d. 16 dvd pointerDataOffset d) (expected_pointers site off bufs)"
proof (induction bufs arbitrary: site off)
  case Nil
  then show ?case by simp
next
  case (Cons buf bufs)
  from Cons.prems length_padded [of buf] have "16 dvd off + length (padded buf)"
    by (rule dvd_add)
  from Cons.IH [OF this] Cons.prems show ?case by simp
qed

lemma expected_pointers_sites:
  "list_all (\<lambda>d. pointerOffset d + 8 \<le> site + 8 * length bufs)
     (expected_pointers site off bufs)"
proof (induction bufs arbitrary: site off)
  case Nil
  then show ?case by simp
next
  case (Cons buf bufs)
  have "list_all (\<lambda>d. pointerOffset d + 8 \<le> (site + 8) + 8 * length bufs)
          (expected_pointers (site + 8) (off + length (padded buf)) bufs)"
    by (rule Cons.IH)
  then show ?case by (simp add: add.assoc)
qed

lemma expected_pointers_nth:
  "i < length bufs \<Longrightarrow>
   pointerDataOffset (expected_pointers site off bufs ! i)
     = off + length (concat (map padded (take i bufs)))"
proof (induction bufs arbitrary: site off i)
  case Nil
  then show ?case by simp
next
  case (Cons buf bufs)
  then show ?case by (cases i) simp_all
qed

lemma pointee_is_buffer:
  assumes "i < length bufs"
  shows "take (length (bufs ! i))
           (drop (length (concat (map padded (take i bufs)))) (concat (map padded bufs)))
         = bufs ! i"
proof -
  from assms have "bufs = take i bufs @ bufs ! i # drop (Suc i) bufs"
    by (rule id_take_nth_drop)
  then have "concat (map padded bufs)
             = concat (map padded (take i bufs @ bufs ! i # drop (Suc i) bufs))"
    by simp
  also have "\<dots> = concat (map padded (take i bufs))
               @ (bufs ! i @ replicate ((16 - length (bufs ! i) mod 16) mod 16) 0)
               @ concat (map padded (drop (Suc i) bufs))"
    by (simp add: padded_def)
  finally show ?thesis by simp
qed

lemma length_little_endian: "length (little_endian n val) = n"
  by (simp add: little_endian_def)

lemma length_patched:
  "list_all (\<lambda>d. pointerOffset d + 8 \<le> length raw) ds \<Longrightarrow>
   length (foldl (patch_pointer writer) raw ds) = length raw"
proof (induction ds arbitrary: raw)
  case Nil
  then show ?case by simp
next
  case (Cons d ds)
  from Cons.prems have "length (patch_pointer writer raw d) = length raw"
    by (simp add: patch_pointer_def length_little_endian)
  with Cons.IH [of "patch_pointer writer raw d"] Cons.prems show ?case by simp
qed

lemma GeometryWriter_effect:
  assumes "list_all (\<lambda>buf. length buf \<le> 2 ^ 32 - 16) (scene_buffers sceneData)"
  shows "GeometryWriter sceneData
         = \<lparr>rawData = replicate (8 * length (scene_buffers sceneData)) 0,
            pointerData = concat (map padded (scene_buffers sceneData)),
            pointers = expected_pointers 0 0 (scene_buffers sceneData)\<rparr>"
  by (simp add: GeometryWriter_def SerializeGeometry_as_list SerializerStart_def
      SerializeIndices_effect [OF assms])

lemma SerializerEnd_pointer_data:
  assumes "list_all (\<lambda>d. pointerOffset d + 8 \<le> length (rawData writer)) (pointers writer)"
  shows "drop (length (rawData writer)) (SerializerEnd writer) = pointerData writer"
  using length_patched [OF assms] by (simp add: SerializerEnd_def)

lemma hugeBuffer_facts:
  "length hugeBuffer = 4294967284" "DataSize hugeBuffer = 4294967284"
  "take 4294967284 hugeBuffer = hugeBuffer"
  by (simp_all add: hugeBuffer_def DataSize_def)

lemma aligned_sizes:
  "((4294967284 :: uint32) + 16 - 1) AND NOT (16 - 1) = 0"
  "((0 :: uint32) + 16 - 1) AND NOT (16 - 1) = 0"
  "((4 :: uint32) + 16 - 1) AND NOT (16 - 1) = 16"
  by simp_all

lemma overflow_writer:
  "GeometryWriter (sampleScene hugeBuffer)
   = \<lparr>rawData = replicate 80 0,
      pointerData = hugeBuffer @ [1, 2, 3, 4] @ replicate 12 0,
      pointers =
        [\<lparr>pointerOffset = 0, pointerDataOffset = 0\<rparr>,
         \<lparr>pointerOffset = 8, pointerDataOffset = 0\<rparr>,
         \<lparr>pointerOffset = 16, pointerDataOffset = 0\<rparr>,
         \<lparr>pointerOffset = 24, pointerDataOffset = 0\<rparr>,
         \<lparr>pointerOffset = 32, pointerDataOffset = 0\<rparr>,
         \<lparr>pointerOffset = 40, pointerDataOffset = 4294967284\<rparr>,
         \<lparr>pointerOffset = 48, pointerDataOffset = 4294967300\<rparr>,
         \<lparr>pointerOffset = 56, pointerDataOffset = 4294967300\<rparr>,
         \<lparr>pointerOffset = 64, pointerDataOffset = 4294967300\<rparr>,
         \<lparr>pointerOffset = 72, pointerDataOffset = 4294967300\<rparr>]\<rparr>"
proof -
  have small: "DataSize [] = 0" "DataSize [1, 2, 3, 4] = 4"
    by (simp_all add: DataSize_def)
  have rep: "replicate 8 (0 :: uint8) @ replicate 8 0 @ replicate 8 0 @ replicate 8 0
             @ replicate 8 0 @ replicate 8 0 @ replicate 8 0 @ replicate 8 0 @ replicate 8 0
             @ replicate 8 0 = replicate 80 0"
    by (simp add: replicate_add [symmetric])
  show ?thesis
    by (simp add: GeometryWriter_def SerializeGeometry_def sampleScene_def SerializerStart_def
        SerializeBufferAligned_general kSceneDataAlignment_def hugeBuffer_facts small
        aligned_sizes rep Let_def)
qed

text \<open>
  C4 as stated does not hold for every buffer: the aligned size is computed in 32 bits.
  For a buffer of 4294967284 bytes the sum \<^verbatim>\<open>dataSize + 15\<close> wraps around, the aligned
  size is 0 and no padding is written; the buffer embedded next, the four bytes of the
  positions, begins at offset 4294967364 of the blob, which is not a multiple of 16.
\<close>

theorem SerializeGeometry_overflow_counterexample:
  "built_positions (sampleScene hugeBuffer) = [1, 2, 3, 4] \<and>
   pointers (GeometryWriter (sampleScene hugeBuffer)) ! 5
     = \<lparr>pointerOffset = 40, pointerDataOffset = 4294967284\<rparr> \<and>
   pointee_position (GeometryWriter (sampleScene hugeBuffer))
     (pointers (GeometryWriter (sampleScene hugeBuffer)) ! 5) = 4294967364 \<and>
   take 4 (drop 4294967284 (pointerData (GeometryWriter (sampleScene hugeBuffer))))
     = [1, 2, 3, 4] \<and>
   \<not> 16 dvd (4294967364 :: nat)"
proof -
  have "built_positions (sampleScene hugeBuffer) = [1, 2, 3, 4]"
    by (simp add: sampleScene_def)
  moreover have "take 4 (drop 4294967284 (hugeBuffer @ [1, 2, 3, 4] @ replicate 12 (0 :: uint8)))
                 = [1, 2, 3, 4]"
    using hugeBuffer_facts(1) by simp
  ultimately show ?thesis
    by (simp add: overflow_writer pointee_position_def)
qed

lemma slots_aligned_iff: "16 dvd 8 * (k + 6) \<longleftrightarrow> even (k :: nat)"
proof -
  have "(16 :: nat) = 8 * 2" by simp
  then have "16 dvd 8 * (k + 6) \<longleftrightarrow> (8 :: nat) * 2 dvd 8 * (k + 6)" by (simp only:)
  also have "\<dots> \<longleftrightarrow> 2 dvd k + 6" by (simp only: nat_mult_dvd_cancel_disj) simp
  also have "\<dots> \<longleftrightarrow> even k" by simp
  finally show ?thesis .
qed

text \<open>
  C4, amended. \<^verbatim>\<open>SerializeBufferAligned\<close> writes the zero padding after the buffer, up to
  the next multiple of 16 of its size. In the geometry blob of a scene whose buffers have
  at most \<^verbatim>\<open>2^32 - 16\<close> bytes each, the pointee bytes are the buffers in their order,
  each followed by its padding; there is one pointer for each buffer; every pointee
  begins at a multiple of 16 from the start of the pointee bytes; the bytes of the blob
  at the position of the pointee are the buffer; and that position is a multiple of 16
  from the blob origin exactly when the number of index buffers, \<^verbatim>\<open>eMeshIndexTypeCount\<close>,
  is even, that is when the pointer slots before the pointee bytes fill a multiple of
  16 bytes.
\<close>

theorem SerializeGeometry_alignment:
  assumes "list_all (\<lambda>buf. length buf \<le> 2 ^ 32 - 16) (scene_buffers sceneData)"
    and "i < length (scene_buffers sceneData)"
  shows "pointerData (GeometryWriter sceneData)
           = concat (map padded (scene_buffers sceneData)) \<and>
         length (pointers (GeometryWriter sceneData)) = length (scene_buffers sceneData) \<and>
         16 dvd pointerDataOffset (pointers (GeometryWriter sceneData) ! i) \<and>
         take (length (scene_buffers sceneData ! i))
           (drop (pointee_position (GeometryWriter sceneData)
                    (pointers (GeometryWriter sceneData) ! i))
              (SceneGeometryBlob sceneData))
           = scene_buffers sceneData ! i \<and>
         (16 dvd pointee_position (GeometryWriter sceneData)
                   (pointers (GeometryWriter sceneData) ! i))
           = even (length (built_indices sceneData))"
proof -
  let ?bufs = "scene_buffers sceneData"
  let ?w = "GeometryWriter sceneData"
  note w = GeometryWriter_effect [OF assms(1)]
  have data: "pointerData ?w = concat (map padded ?bufs)"
    and raw: "length (rawData ?w) = 8 * length ?bufs"
    and ptrs: "pointers ?w = expected_pointers 0 0 ?bufs"
    by (simp_all add: w)
  have len: "length (pointers ?w) = length ?bufs"
    by (simp add: ptrs length_expected_pointers)
  have off: "pointerDataOffset (pointers ?w ! i) = length (concat (map padded (take i ?bufs)))"
    using expected_pointers_nth [OF assms(2), of 0 0] by (simp add: ptrs)
  have "list_all (\<lambda>d. 16 dvd pointerDataOffset d) (pointers ?w)"
    unfolding ptrs by (rule expected_pointers_aligned) simp
  with assms(2) len have al: "16 dvd pointerDataOffset (pointers ?w ! i)"
    by (simp add: list_all_length)
  have "list_all (\<lambda>d. pointerOffset d + 8 \<le> length (rawData ?w)) (pointers ?w)"
    using expected_pointers_sites [of 0 ?bufs 0] by (simp add: ptrs raw)
  then have "drop (length (rawData ?w)) (SerializerEnd ?w) = pointerData ?w"
    by (rule SerializerEnd_pointer_data)
  moreover have "drop (length (rawData ?w) + pointerDataOffset (pointers ?w ! i)) (SerializerEnd ?w)
             = drop (pointerDataOffset (pointers ?w ! i)) (drop (length (rawData ?w)) (SerializerEnd ?w))"
    by (simp add: add.commute)
  ultimately have "drop (pointee_position ?w (pointers ?w ! i)) (SceneGeometryBlob sceneData)
             = drop (pointerDataOffset (pointers ?w ! i)) (pointerData ?w)"
    by (simp only: pointee_position_def SceneGeometryBlob_def)
  then have pointee: "take (length (?bufs ! i))
           (drop (pointee_position ?w (pointers ?w ! i)) (SceneGeometryBlob sceneData))
           = ?bufs ! i"
    using pointee_is_buffer [OF assms(2)] by (simp add: off data)
  have "length ?bufs = length (built_indices sceneData) + 6"
    by (simp add: scene_buffers_def)
  with slots_aligned_iff [of "length (built_indices sceneData)"]
  have "16 dvd length (rawData ?w) \<longleftrightarrow> even (length (built_indices sceneData))"
    by (simp add: raw)
  with al have blob: "(16 dvd pointee_position ?w (pointers ?w ! i))
                      = even (length (built_indices sceneData))"
    by (simp add: pointee_position_def dvd_add_left_iff)
  from data len al pointee blob show ?thesis by (intro conjI)
qed

theorem SerializeGeometry_alignment_witness:
  "list_all (\<lambda>buf. length buf \<le> 2 ^ 32 - 16) (scene_buffers (sampleScene [7, 0, 0, 0])) \<and>
   5 < length (scene_buffers (sampleScene [7, 0, 0, 0])) \<and>
   scene_buffers (sampleScene [7, 0, 0, 0]) ! 5 = [1, 2, 3, 4] \<and>
   even (length (built_indices (sampleScene [7, 0, 0, 0]))) \<and>
   16 dvd pointerDataOffset (pointers (GeometryWriter (sampleScene [7, 0, 0, 0])) ! 5) \<and>
   16 dvd pointee_position (GeometryWriter (sampleScene [7, 0, 0, 0]))
            (pointers (GeometryWriter (sampleScene [7, 0, 0, 0])) ! 5) \<and>
   take 4 (drop (pointee_position (GeometryWriter (sampleScene [7, 0, 0, 0]))
                   (pointers (GeometryWriter (sampleScene [7, 0, 0, 0])) ! 5))
             (SceneGeometryBlob (sampleScene [7, 0, 0, 0])))
     = [1, 2, 3, 4]"
proof -
  have a: "list_all (\<lambda>buf. length buf \<le> 2 ^ 32 - 16) (scene_buffers (sampleScene [7, 0, 0, 0]))"
    by (simp add: scene_buffers_def sampleScene_def)
  have b: "5 < length (scene_buffers (sampleScene [7, 0, 0, 0]))"
    by (simp add: scene_buffers_def sampleScene_def)
  have c: "scene_buffers (sampleScene [7, 0, 0, 0]) ! 5 = [1, 2, 3, 4]"
    by (simp add: scene_buffers_def sampleScene_def)
  have d: "even (length (built_indices (sampleScene [7, 0, 0, 0])))"
    by (simp add: sampleScene_def)
  note inst = SerializeGeometry_alignment [OF a b, unfolded c]
  from inst have e: "16 dvd pointerDataOffset (pointers (GeometryWriter (sampleScene [7, 0, 0, 0])) ! 5)"
    by (elim conjE)
  from inst d have f: "16 dvd pointee_position (GeometryWriter (sampleScene [7, 0, 0, 0]))
            (pointers (GeometryWriter (sampleScene [7, 0, 0, 0])) ! 5)"
    by (elim conjE) (simp only:)
  have "length [1, 2, 3, 4 :: uint8] = 4" by simp
  with inst have g: "take 4 (drop (pointee_position (GeometryWriter (sampleScene [7, 0, 0, 0]))
                   (pointers (GeometryWriter (sampleScene [7, 0, 0, 0])) ! 5))
             (SceneGeometryBlob (sampleScene [7, 0, 0, 0])))
     = [1, 2, 3, 4]"
    by (elim conjE) (simp only:)
  from a b c d e f g show ?thesis by (intro conjI)
qed

end
